theory Spec2Isabelle
  imports Complex_Main
begin

section \<open>The Draft SelectPlane command (gui_selectplane.py)\<close>

text \<open>
  A shallow embedding of the class \<open>Draft_SelectPlane\<close>. Each method becomes a function
  from the state before the call to a pair of its outcome and the state after it: the
  outcome is \<open>Inr\<close> of the returned value, or \<open>Inl\<close> of the exception that leaves the
  method, and the state is the one reached when the method returned or raised.

  Python floats are read as real numbers (no NaN, no infinities, no signed zero, no
  rounding), so a text that Python renders from \<open>-0.0\<close> or \<open>nan\<close> is outside the model. The
  collaborators the module imports and does not define (the working-plane object,
  DraftVecUtils, the vector class, the translation and unit functions, the task panel)
  are the fields of a record \<open>host\<close>, taken as a parameter by every method that calls
  one; they are assumed to return normally.
\<close>

subsection \<open>Values\<close>

datatype error =
  AttributeError | IndexError | KeyError | ZeroDivisionError | ParserError | CommandError

datatype vec = Vector (vx: real) (vy: real) (vz: real)

type_synonym quat = "real \<times> real \<times> real \<times> real"

type_synonym placement = "vec \<times> quat"

text \<open>\<open>FreeCAD.Vector()\<close>: the null vector.\<close>

definition Vector0 :: vec where
  "Vector0 = Vector 0 0 0"

text \<open>
  A sub-shape handed over by the selection: a vertex carries its point, faces and edges
  are handles into the host's geometry kernel.
\<close>

datatype shape = Vertex vec | Face nat | Edge nat

text \<open>\<open>so.Point\<close>: only a vertex has the attribute.\<close>

fun Point :: "shape \<Rightarrow> error + vec" where
  "Point (Vertex p) = Inr p"
| "Point _ = Inl AttributeError"

text \<open>\<open>isinstance(so, Part.Vertex)\<close>\<close>

fun isVertex :: "shape \<Rightarrow> bool" where
  "isVertex (Vertex _) = True"
| "isVertex _ = False"

text \<open>
  The attributes of a view provider that \<open>handle\<close> reads under \<open>hasattr\<close>: \<open>None\<close> is an
  attribute the object does not have.
\<close>

record viewobject =
  AutoWorkingPlane :: "bool option"
  CutView :: "bool option"
  AutoCutView :: "bool option"
  RestoreView :: "bool option"
  ViewData :: "real list option"
  RestoreState :: "bool option"
  VisibilityMap :: "(string \<times> string) list option"

text \<open>
  A document object as \<open>handle\<close> sees it. \<open>getType\<close> is the value of \<open>Draft.getType\<close> on
  it, \<open>isPartFeature\<close> the value of \<open>isDerivedFrom("Part::Feature")\<close>; \<open>Shape\<close> is \<open>None\<close>
  for an object without a shape, else its faces and edges.
\<close>

record docobj =
  getType :: string
  Label :: string
  Placement :: placement
  isPartFeature :: bool
  Shape :: "(shape list \<times> shape list) option"
  ViewObject :: viewobject

definition Faces :: "shape list \<times> shape list \<Rightarrow> shape list" where
  "Faces sh = fst sh"

definition Edges :: "shape list \<times> shape list \<Rightarrow> shape list" where
  "Edges sh = snd sh"

text \<open>An entry of \<open>FreeCADGui.Selection.getSelectionEx()\<close>.\<close>

record selobj =
  Object :: docobj
  HasSubObjects :: bool
  SubElementNames :: "string list"
  SubObjects :: "shape list"

datatype camkind = SoOrthographicCamera | SoPerspectiveCamera

record camera =
  kind :: camkind
  cam_position :: vec
  orientation :: quat
  nearDistance :: real
  farDistance :: real
  aspectRatio :: real
  focalDistance :: real
  height :: real
  heightAngle :: real

text \<open>
  \<open>FreeCAD.DraftWorkingPlane\<close>: the four vectors and the flag the module reads and
  writes, and whatever else the object holds (\<open>internals\<close>: what \<open>setup\<close>, \<open>reset\<close> and
  \<open>restore\<close> work on).
\<close>

record 'h wplane =
  u :: vec
  v :: vec
  axis :: vec
  position :: vec
  weak :: bool
  internals :: 'h

text \<open>An entry of \<open>self.states\<close>: the list \<open>[p.u, p.v, p.axis, p.position]\<close>.\<close>

type_synonym wpstate = "vec \<times> vec \<times> vec \<times> vec"

definition snapshot :: "'h wplane \<Rightarrow> wpstate" where
  "snapshot p = (u p, v p, axis p, position p)"

text \<open>The widgets of the task panel's form that the module reads and writes.\<close>

record form =
  checkCenter :: bool
  fieldOffset :: string
  fieldGridSpacing :: string
  fieldGridMainLine :: int
  fieldSnapRadius :: int

text \<open>The working-plane button of the Draft toolbar: the status text.\<close>

record button =
  buttonText :: string
  toolTip :: string

text \<open>The parameter group \<open>BaseApp/Preferences/Mod/Draft\<close>.\<close>

record params =
  bools :: "string \<rightharpoonup> bool"
  ints :: "string \<rightharpoonup> int"
  floats :: "string \<rightharpoonup> real"

definition GetBool :: "params \<Rightarrow> string \<Rightarrow> bool \<Rightarrow> bool" where
  "GetBool p k d = (case bools p k of None \<Rightarrow> d | Some b \<Rightarrow> b)"

definition GetInt :: "params \<Rightarrow> string \<Rightarrow> int \<Rightarrow> int" where
  "GetInt p k d = (case ints p k of None \<Rightarrow> d | Some i \<Rightarrow> i)"

definition GetFloat :: "params \<Rightarrow> string \<Rightarrow> real \<Rightarrow> real" where
  "GetFloat p k d = (case floats p k of None \<Rightarrow> d | Some x \<Rightarrow> x)"

definition SetBool :: "string \<Rightarrow> bool \<Rightarrow> params \<Rightarrow> params" where
  "SetBool k b p = p\<lparr>bools := (bools p)(k \<mapsto> b)\<rparr>"

definition SetInt :: "string \<Rightarrow> int \<Rightarrow> params \<Rightarrow> params" where
  "SetInt k i p = p\<lparr>ints := (ints p)(k \<mapsto> i)\<rparr>"

definition SetFloat :: "string \<Rightarrow> real \<Rightarrow> params \<Rightarrow> params" where
  "SetFloat k x p = p\<lparr>floats := (floats p)(k \<mapsto> x)\<rparr>"

text \<open>A task handed to \<open>todo.delay\<close>: the only one the module queues.\<close>

datatype task = CheckSelection

text \<open>The handle \<open>addEventCallback\<close> returns.\<close>

datatype callback = SoEventCallback

subsection \<open>The state\<close>

text \<open>
  The command object's attributes (\<open>states\<close>, \<open>param\<close>, \<open>taskd\<close>, \<open>call\<close>) and the parts of
  the application it acts on. \<open>call\<close> is \<open>None\<close> while the attribute has never been
  assigned (\<open>__init__\<close> does not create it), \<open>Some None\<close> when it holds Python's \<open>None\<close>.
  \<open>taskd\<close>, \<open>view\<close> and \<open>wpButton\<close> are bound by \<open>Activated\<close> before any slot is connected,
  so they are plain fields. Of the view, the state holds the callbacks installed on it
  and whether it has been deleted since \<open>Activated\<close> bound it; of the Gui, whether it has
  a Snapper, how often the grid was refreshed and the snap radius shown, the texts given
  to \<open>doCommand\<close> and \<open>doCommandGui\<close>, the messages printed, the queue of \<open>todo.delay\<close> and
  the calls of \<open>resetEdit\<close>.
\<close>

record 'h state =
  states :: "wpstate list"
  param :: params
  taskd :: form
  call :: "callback option option"
  wpButton :: button
  wplane :: "'h wplane"
  selection :: "selobj list"
  camera :: camera
  viewDeleted :: bool
  viewCallbacks :: "callback list"
  dialogShown :: bool
  visibility :: "string \<rightharpoonup> bool"
  hasSnapper :: bool
  gridRefreshes :: nat
  radiusShown :: nat
  commands :: "string list"
  messages :: "string list"
  todo :: "task list"
  editResets :: nat

subsection \<open>The host\<close>

record 'h host =
  translate :: "string \<Rightarrow> string \<Rightarrow> string"
  str_float :: "real \<Rightarrow> string"
  float :: "string \<Rightarrow> real option"
  Quantity :: "string \<Rightarrow> real option"
  UserString :: "real \<Rightarrow> string"
  pyBool :: "string \<Rightarrow> bool option"
  math_cos :: "real \<Rightarrow> real"
  project :: "vec \<Rightarrow> vec \<Rightarrow> vec"
  getAngle :: "vec \<Rightarrow> vec \<Rightarrow> real"
  Length :: "vec \<Rightarrow> real"
  scaleTo :: "vec \<Rightarrow> real \<Rightarrow> vec"
  getViewDirection :: "camera \<Rightarrow> vec"
  newTaskPanel :: form
  wp_setup :: "bool \<Rightarrow> camera \<Rightarrow> 'h wplane \<Rightarrow> 'h wplane"
  wp_restore :: "'h wplane \<Rightarrow> 'h wplane"
  wp_reset :: "'h wplane \<Rightarrow> 'h wplane"
  alignToEdges :: "shape list \<Rightarrow> 'h wplane \<Rightarrow> bool \<times> 'h wplane"
  alignToFace :: "shape \<Rightarrow> real \<Rightarrow> 'h wplane \<Rightarrow> bool \<times> 'h wplane"
  alignTo3Points :: "vec \<Rightarrow> vec \<Rightarrow> vec \<Rightarrow> real \<Rightarrow> 'h wplane \<Rightarrow> bool \<times> 'h wplane"
  alignToPointAndAxis :: "vec \<Rightarrow> vec \<Rightarrow> real \<Rightarrow> 'h wplane \<Rightarrow> 'h wplane"
  alignToSelection :: "selobj list \<Rightarrow> 'h wplane \<Rightarrow> bool \<times> 'h wplane"
  setFromPlacement :: "placement \<Rightarrow> bool \<Rightarrow> 'h wplane \<Rightarrow> 'h wplane"
  projectPoint :: "vec \<Rightarrow> vec option \<Rightarrow> 'h wplane \<Rightarrow> vec"
  getRotationQ :: "'h wplane \<Rightarrow> quat"

text \<open>
  \<open>float\<close> is Python's \<open>float(text)\<close> and \<open>Quantity\<close> is
  \<open>FreeCAD.Units.Quantity(text).Value\<close>, each \<open>None\<close> where the call raises; \<open>str_float\<close>
  is \<open>str\<close> on a float, \<open>math_cos\<close> is \<open>math.cos\<close>, and \<open>pyBool\<close> is the truth value of a
  text run as a Python expression (\<open>None\<close> where running it raises). \<open>wp_setup\<close>,
  \<open>wp_restore\<close> and \<open>wp_reset\<close> are the working plane's \<open>setup(force)\<close>, \<open>restore()\<close> and
  \<open>reset()\<close>; the names are prefixed because Isabelle reserves two of them. The
  alignment methods give the flag the working plane returns and the plane after the
  call; \<open>projectPoint\<close> takes the direction when one is passed.
\<close>

subsection \<open>Vector and string helpers\<close>

text \<open>\<open>Vector.add\<close> and \<open>Vector.negative\<close>, component by component.\<close>

definition add :: "vec \<Rightarrow> vec \<Rightarrow> vec" where
  "add a b = Vector (vx a + vx b) (vy a + vy b) (vz a + vz b)"

definition negative :: "vec \<Rightarrow> vec" where
  "negative a = Vector (- vx a) (- vy a) (- vz a)"

text \<open>Python's \<open>sub in s\<close> on strings.\<close>

fun startswith :: "string \<Rightarrow> string \<Rightarrow> bool" where
  "startswith s [] = True"
| "startswith [] (c # cs) = False"
| "startswith (d # ds) (c # cs) = (d = c \<and> startswith ds cs)"

fun contains :: "string \<Rightarrow> string \<Rightarrow> bool" where
  "contains [] sub = (sub = [])"
| "contains (d # ds) sub = (startswith (d # ds) sub \<or> contains ds sub)"

text \<open>\<open>str\<close> on an integer: decimal digits, a minus sign when negative.\<close>

definition digit :: "nat \<Rightarrow> char" where
  "digit n = ''0123456789'' ! n"

function str_nat :: "nat \<Rightarrow> string" where
  "str_nat n = (if n < 10 then [digit n] else str_nat (n div 10) @ [digit (n mod 10)])"
  by pat_completeness auto
termination
  by (relation "measure id") auto

declare str_nat.simps [simp del]

definition str_int :: "int \<Rightarrow> string" where
  "str_int i = (if i < 0 then CHR ''-'' # str_nat (nat (- i)) else str_nat (nat i))"

subsection \<open>Small methods\<close>

text \<open>\<open>getOffset\<close>: \<open>float\<close> of the offset field, else the value of the field as a quantity.\<close>

definition getOffset :: "'h host \<Rightarrow> 'h state \<Rightarrow> error + real" where
  "getOffset h s =
     (case float h (fieldOffset (taskd s)) of
        Some x \<Rightarrow> Inr x
      | None \<Rightarrow>
          (case Quantity h (fieldOffset (taskd s)) of
             Some q \<Rightarrow> Inr q
           | None \<Rightarrow> Inl ParserError))"

text \<open>\<open>getCenterPoint(x, y, z)\<close>: reads the form, the camera and the view; changes nothing.\<close>

definition getCenterPoint :: "'h host \<Rightarrow> real \<Rightarrow> real \<Rightarrow> real \<Rightarrow> 'h state \<Rightarrow> error + vec" where
  "getCenterPoint h x y z s =
     (if \<not> checkCenter (taskd s) then Inr Vector0
      else
        let w = Vector x y z;
            cam1 = cam_position (camera s);
            cam2 = getViewDirection h (camera s);
            vcam1 = project h cam1 w;
            a = getAngle h vcam1 cam2
        in if a < 0.0001 then Inr Vector0
           else
             let d = Length h vcam1
             in if math_cos h a = 0 then Inl ZeroDivisionError
                else
                  let L = d / math_cos h a;
                      vcam2 = scaleTo h cam2 L;
                      cp = add cam1 vcam2
                  in Inr cp)"

text \<open>\<open>tostr\<close> on a vector (float components) and on a tuple of integers.\<close>

definition tostr :: "'h host \<Rightarrow> vec \<Rightarrow> string" where
  "tostr h w =
     ''FreeCAD.Vector('' @ str_float h (vx w) @ '', '' @ str_float h (vy w) @ '', ''
       @ str_float h (vz w) @ '')''"

definition tostr_tuple :: "int \<times> int \<times> int \<Rightarrow> string" where
  "tostr_tuple t =
     (case t of (a, b, c) \<Rightarrow>
        ''FreeCAD.Vector('' @ str_int a @ '', '' @ str_int b @ '', '' @ str_int c @ '')'')"

text \<open>\<open>FreeCADGui.Snapper.setGrid()\<close>: an attribute error when the Gui has no Snapper.\<close>

definition Snapper_setGrid :: "'h state \<Rightarrow> (error + unit) \<times> 'h state" where
  "Snapper_setGrid s =
     (if hasSnapper s then (Inr (), s\<lparr>gridRefreshes := Suc (gridRefreshes s)\<rparr>)
      else (Inl AttributeError, s))"

text \<open>\<open>onSetMainline(i)\<close>\<close>

definition onSetMainline :: "int \<Rightarrow> 'h state \<Rightarrow> 'h state" where
  "onSetMainline i s =
     (if i > 1 then
        let s1 = s\<lparr>param := SetInt ''gridEvery'' i (param s)\<rparr>
        in if hasSnapper s1 then s1\<lparr>gridRefreshes := Suc (gridRefreshes s1)\<rparr> else s1
      else s)"

text \<open>\<open>onSetSnapRadius(i)\<close>\<close>

definition onSetSnapRadius :: "int \<Rightarrow> 'h state \<Rightarrow> 'h state" where
  "onSetSnapRadius i s =
     (let s1 = s\<lparr>param := SetInt ''snapRange'' i (param s)\<rparr>
      in if hasSnapper s1 then s1\<lparr>radiusShown := Suc (radiusShown s1)\<rparr> else s1)"

text \<open>\<open>onSetGridSize(text)\<close>: a text that is no quantity is ignored.\<close>

definition onSetGridSize :: "'h host \<Rightarrow> string \<Rightarrow> 'h state \<Rightarrow> 'h state" where
  "onSetGridSize h t s =
     (case Quantity h t of
        None \<Rightarrow> s
      | Some q \<Rightarrow>
          let s1 = s\<lparr>param := SetFloat ''gridSpacing'' q (param s)\<rparr>
          in if hasSnapper s1 then s1\<lparr>gridRefreshes := Suc (gridRefreshes s1)\<rparr> else s1)"

subsection \<open>display\<close>

text \<open>The argument of \<open>display\<close>: a label (\<open>str\<close>) or a vector.\<close>

datatype disp_arg = Str string | Vec vec

text \<open>The local \<open>suffix\<close> of \<open>display\<close>.\<close>

definition suffix_of :: "real \<Rightarrow> string" where
  "suffix_of off = (if off \<noteq> 0 then (if off > 0 then '' +O'' else '' -O'') else [])"

text \<open>The local \<open>vdir\<close> of \<open>display\<close>, from the working plane's axis.\<close>

definition vdir_of :: "'h host \<Rightarrow> vec \<Rightarrow> string" where
  "vdir_of h a =
     '' '' @ translate h ''draft'' ''Dir'' @ '': '' @
     (''('' @ take 4 (str_float h (vx a)) @ '','' @ take 4 (str_float h (vy a)) @ '',''
        @ take 4 (str_float h (vz a)) @ '')'')"

text \<open>The local \<open>plv\<close> of \<open>display\<close>, from a vector argument.\<close>

definition plv_of :: "'h host \<Rightarrow> vec \<Rightarrow> string" where
  "plv_of h w =
     ''('' @ take 6 (str_float h (vx w)) @ '','' @ take 6 (str_float h (vy w)) @ '',''
       @ take 6 (str_float h (vz w)) @ '')''"

text \<open>The offset entry of the tooltip: the second value of the local \<open>o\<close>.\<close>

definition offset_entry :: "'h host \<Rightarrow> real \<Rightarrow> string" where
  "offset_entry h off =
     (if off \<noteq> 0 then '' '' @ translate h ''draft'' ''Offset'' @ '': '' @ str_float h off
      else [])"

text \<open>What \<open>display\<close> writes on the button, for an offset \<open>off\<close> and the plane's axis \<open>a\<close>.\<close>

definition status_of :: "'h host \<Rightarrow> disp_arg \<Rightarrow> real \<Rightarrow> vec \<Rightarrow> button" where
  "status_of h arg off a =
     (case arg of
        Str label \<Rightarrow>
          \<lparr>buttonText = label @ suffix_of off,
           toolTip = translate h ''draft'' ''Current working plane'' @ '': ''
                       @ (label @ suffix_of off) @ offset_entry h off @ vdir_of h a\<rparr>
      | Vec w \<Rightarrow>
          \<lparr>buttonText = translate h ''draft'' ''Custom'',
           toolTip = translate h ''draft'' ''Current working plane'' @ '': '' @ plv_of h w
                       @ vdir_of h a\<rparr>)"

text \<open>\<open>FreeCADGui.doCommandGui("FreeCADGui.Snapper.setGrid()")\<close>\<close>

definition doCommandGui_setGrid :: "'h state \<Rightarrow> (error + unit) \<times> 'h state" where
  "doCommandGui_setGrid s =
     Snapper_setGrid (s\<lparr>commands := commands s @ [''FreeCADGui.Snapper.setGrid()'']\<rparr>)"

definition display :: "'h host \<Rightarrow> disp_arg \<Rightarrow> 'h state \<Rightarrow> (error + unit) \<times> 'h state" where
  "display h arg s =
     (case getOffset h s of
        Inl e \<Rightarrow> (Inl e, s)
      | Inr off \<Rightarrow>
          let s1 = s\<lparr>wpButton := status_of h arg off (axis (wplane s))\<rparr>;
              s2 = s1\<lparr>states := states s1 @ [snapshot (wplane s1)]\<rparr>
          in doCommandGui_setGrid s2)"

subsection \<open>finish, reject\<close>

definition finish :: "'h host \<Rightarrow> 'h state \<Rightarrow> (error + bool) \<times> 'h state" where
  "finish h s =
     (let s1 = s\<lparr>param := SetBool ''CenterPlaneOnView'' (checkCenter (taskd s)) (param s)\<rparr>
      in case call s1 of
           None \<Rightarrow> (Inl AttributeError, s1)
         | Some c \<Rightarrow>
             let s2 = (case c of
                         None \<Rightarrow> s1
                       | Some cb \<Rightarrow>
                           (if viewDeleted s1 then s1
                            else s1\<lparr>viewCallbacks := remove1 cb (viewCallbacks s1)\<rparr>)
                           \<lparr>call := Some None\<rparr>);
                 s3 = s2\<lparr>dialogShown := False\<rparr>;
                 s4 = s3\<lparr>wplane := wp_restore h (wplane s3)\<rparr>;
                 s5 = s4\<lparr>editResets := Suc (editResets s4)\<rparr>
             in (Inr True, s5))"

definition reject :: "'h host \<Rightarrow> 'h state \<Rightarrow> (error + bool) \<times> 'h state" where
  "reject h s =
     (case finish h s of
        (Inl e, s1) \<Rightarrow> (Inl e, s1)
      | (Inr _, s1) \<Rightarrow> (Inr True, s1))"

text \<open>The tail of a slot that ends with \<open>self.finish()\<close> and returns nothing.\<close>

definition finish_unit :: "'h host \<Rightarrow> 'h state \<Rightarrow> (error + unit) \<times> 'h state" where
  "finish_unit h s =
     (case finish h s of
        (Inl e, s1) \<Rightarrow> (Inl e, s1)
      | (Inr _, s1) \<Rightarrow> (Inr (), s1))"

text \<open>The tail \<open>self.display(arg); self.finish()\<close> of the button slots.\<close>

definition display_finish ::
  "'h host \<Rightarrow> disp_arg \<Rightarrow> 'h state \<Rightarrow> (error + unit) \<times> 'h state" where
  "display_finish h arg s =
     (case display h arg s of
        (Inl e, s1) \<Rightarrow> (Inl e, s1)
      | (Inr _, s1) \<Rightarrow> finish_unit h s1)"

subsection \<open>handle\<close>

text \<open>\<open>xs[i]\<close> for a non-negative literal index.\<close>

definition getitem :: "'a list \<Rightarrow> nat \<Rightarrow> error + 'a" where
  "getitem xs i = (if i < length xs then Inr (xs ! i) else Inl IndexError)"

text \<open>\<open>xs[i].Point\<close>\<close>

definition point_at :: "shape list \<Rightarrow> nat \<Rightarrow> error + vec" where
  "point_at xs i = (case getitem xs i of Inl e \<Rightarrow> Inl e | Inr so \<Rightarrow> Point so)"

text \<open>
  The call \<open>alignTo3Points(xs[0].Point, xs[1].Point, xs[2].Point, self.getOffset())\<close>: the
  arguments are evaluated from left to right, and the flag the call returns is not read.
\<close>

definition call_alignTo3Points ::
  "'h host \<Rightarrow> shape list \<Rightarrow> 'h state \<Rightarrow> (error + unit) \<times> 'h state" where
  "call_alignTo3Points h xs s =
     (case point_at xs 0 of
        Inl e \<Rightarrow> (Inl e, s)
      | Inr p1 \<Rightarrow>
     (case point_at xs 1 of
        Inl e \<Rightarrow> (Inl e, s)
      | Inr p2 \<Rightarrow>
     (case point_at xs 2 of
        Inl e \<Rightarrow> (Inl e, s)
      | Inr p3 \<Rightarrow>
     (case getOffset h s of
        Inl e \<Rightarrow> (Inl e, s)
      | Inr off \<Rightarrow>
          (Inr (), s\<lparr>wplane := snd (alignTo3Points h p1 p2 p3 off (wplane s))\<rparr>)))))"

text \<open>The call \<open>alignToFace(xs[0], self.getOffset())\<close>; its flag is not read either.\<close>

definition call_alignToFace ::
  "'h host \<Rightarrow> shape list \<Rightarrow> 'h state \<Rightarrow> (error + unit) \<times> 'h state" where
  "call_alignToFace h xs s =
     (case getitem xs 0 of
        Inl e \<Rightarrow> (Inl e, s)
      | Inr f \<Rightarrow>
     (case getOffset h s of
        Inl e \<Rightarrow> (Inl e, s)
      | Inr off \<Rightarrow> (Inr (), s\<lparr>wplane := snd (alignToFace h f off (wplane s))\<rparr>)))"

text \<open>The tail \<open>self.display(FreeCAD.DraftWorkingPlane.axis); return True\<close>.\<close>

definition display_axis_True :: "'h host \<Rightarrow> 'h state \<Rightarrow> (error + bool) \<times> 'h state" where
  "display_axis_True h s =
     (case display h (Vec (axis (wplane s))) s of
        (Inl e, s1) \<Rightarrow> (Inl e, s1)
      | (Inr _, s1) \<Rightarrow> (Inr True, s1))"

text \<open>An alignment call followed by that tail.\<close>

definition then_display_axis ::
  "'h host \<Rightarrow> (error + unit) \<times> 'h state \<Rightarrow> (error + bool) \<times> 'h state" where
  "then_display_axis h r =
     (case r of
        (Inl e, s1) \<Rightarrow> (Inl e, s1)
      | (Inr _, s1) \<Rightarrow> display_axis_True h s1)"

text \<open>
  The camera part of the proxy branch: run when \<open>RestoreView\<close> is set and \<open>ViewData\<close> has
  at least twelve entries. \<open>setCameraType\<close> is read as switching the camera node's kind.
\<close>

definition restore_camera :: "real list \<Rightarrow> camera \<Rightarrow> camera" where
  "restore_camera d c =
     (let camtype = (if length d = 13 \<and> d ! 12 = 1 then SoPerspectiveCamera
                     else SoOrthographicCamera);
          c1 = (case kind c of
                  SoOrthographicCamera \<Rightarrow>
                    (if camtype = SoPerspectiveCamera then c\<lparr>kind := SoPerspectiveCamera\<rparr> else c)
                | SoPerspectiveCamera \<Rightarrow>
                    (if camtype = SoOrthographicCamera then c\<lparr>kind := SoOrthographicCamera\<rparr>
                     else c));
          c2 = c1\<lparr>cam_position := Vector (d ! 0) (d ! 1) (d ! 2),
                  orientation := (d ! 3, d ! 4, d ! 5, d ! 6),
                  nearDistance := d ! 7,
                  farDistance := d ! 8,
                  aspectRatio := d ! 9,
                  focalDistance := d ! 10\<rparr>
      in if camtype = SoOrthographicCamera then c2\<lparr>height := d ! 11\<rparr>
         else c2\<lparr>heightAngle := d ! 11\<rparr>)"

definition restore_view :: "viewobject \<Rightarrow> camera \<Rightarrow> camera" where
  "restore_view vo c =
     (if RestoreView vo = Some True then
        (case ViewData vo of
           None \<Rightarrow> c
         | Some d \<Rightarrow> (if length d \<ge> 12 then restore_camera d c else c))
      else c)"

text \<open>
  The loop over \<open>VisibilityMap.items()\<close>: for an object of the document whose visibility
  differs from \<open>v == "True"\<close>, the command \<open>...getObject("k").Visibility = v\<close> is run.
\<close>

fun restore_visibility ::
  "'h host \<Rightarrow> (string \<times> string) list \<Rightarrow> 'h state \<Rightarrow> (error + unit) \<times> 'h state" where
  "restore_visibility h [] s = (Inr (), s)"
| "restore_visibility h ((k, w) # kvs) s =
     (case visibility s k of
        None \<Rightarrow> restore_visibility h kvs s
      | Some vis \<Rightarrow>
          (if vis \<noteq> (w = ''True'') then
             let s1 = s\<lparr>commands := commands s @
                        [''FreeCADGui.ActiveDocument.getObject('' @ [CHR 0x22] @ k @ [CHR 0x22]
                           @ '').Visibility = '' @ w]\<rparr>
             in (case pyBool h w of
                   None \<Rightarrow> (Inl CommandError, s1)
                 | Some b \<Rightarrow>
                     restore_visibility h kvs (s1\<lparr>visibility := (visibility s1)(k \<mapsto> b)\<rparr>))
           else restore_visibility h kvs s))"

definition restore_state :: "'h host \<Rightarrow> viewobject \<Rightarrow> 'h state \<Rightarrow> (error + unit) \<times> 'h state" where
  "restore_state h vo s =
     (if RestoreState vo = Some True then
        (case VisibilityMap vo of
           None \<Rightarrow> (Inr (), s)
         | Some m \<Rightarrow> (if m \<noteq> [] then restore_visibility h m s else (Inr (), s)))
      else (Inr (), s))"

text \<open>\<open>sel.Object.ViewObject.CutView = True\<close> on the one selected object.\<close>

definition auto_cut_view :: "selobj \<Rightarrow> selobj" where
  "auto_cut_view so =
     (let vo = ViewObject (Object so)
      in if CutView vo \<noteq> None \<and> AutoCutView vo \<noteq> None \<and> AutoCutView vo = Some True
         then so\<lparr>Object := (Object so)\<lparr>ViewObject := vo\<lparr>CutView := Some True\<rparr>\<rparr>\<rparr>
         else so)"

text \<open>The two statements after \<open>display\<close> that put the object's label on the button.\<close>

definition label_button :: "'h host \<Rightarrow> string \<Rightarrow> 'h state \<Rightarrow> 'h state" where
  "label_button h l s =
     s\<lparr>wpButton := \<lparr>buttonText = l,
                     toolTip = translate h ''draft'' ''Current working plane'' @ '': '' @ l\<rparr>\<rparr>"

definition display_label_True ::
  "'h host \<Rightarrow> string \<Rightarrow> 'h state \<Rightarrow> (error + bool) \<times> 'h state" where
  "display_label_True h l s =
     (case display h (Vec (axis (wplane s))) s of
        (Inl e, s1) \<Rightarrow> (Inl e, s1)
      | (Inr _, s1) \<Rightarrow> (Inr True, label_button h l s1))"

text \<open>The branch for a WorkingPlaneProxy or a BuildingPart.\<close>

definition handle_proxy :: "'h host \<Rightarrow> selobj \<Rightarrow> 'h state \<Rightarrow> (error + bool) \<times> 'h state" where
  "handle_proxy h so s =
     (let vo = ViewObject (Object so);
          p1 = (setFromPlacement h (Placement (Object so)) True (wplane s))\<lparr>weak := False\<rparr>;
          p2 = (if AutoWorkingPlane vo = Some True then p1\<lparr>weak := True\<rparr> else p1);
          s1 = s\<lparr>wplane := p2, selection := [auto_cut_view so]\<rparr>;
          s2 = s1\<lparr>camera := restore_view vo (camera s1)\<rparr>
      in case restore_state h vo s2 of
           (Inl e, s3) \<Rightarrow> (Inl e, s3)
         | (Inr _, s3) \<Rightarrow> display_label_True h (Label (Object so)) s3)"

text \<open>The vertices among the sub-objects of all selected objects (the local \<open>subs\<close>).\<close>

definition vertices_of :: "selobj list \<Rightarrow> shape list" where
  "vertices_of sel = concat (map (\<lambda>so. filter isVertex (SubObjects so)) sel)"

definition handle :: "'h host \<Rightarrow> 'h state \<Rightarrow> (error + bool) \<times> 'h state" where
  "handle h s =
     (let sel = selection s
      in if length sel = 1 then
           let so = hd sel; obj = Object so
           in if getType obj = ''Axis'' then
                (case Shape obj of
                   None \<Rightarrow> (Inl AttributeError, s)
                 | Some sh \<Rightarrow>
                     display_axis_True h
                       (s\<lparr>wplane := snd (alignToEdges h (Edges sh) (wplane s))\<rparr>))
              else if getType obj = ''WorkingPlaneProxy'' \<or> getType obj = ''BuildingPart'' then
                handle_proxy h so s
              else if getType obj = ''SectionPlane'' then
                display_label_True h (Label obj)
                  (s\<lparr>wplane := (setFromPlacement h (Placement obj) True (wplane s))
                                  \<lparr>weak := False\<rparr>\<rparr>)
              else if HasSubObjects so then
                (if length (SubElementNames so) = 1 then
                   (if contains (SubElementNames so ! 0) ''Face'' then
                      then_display_axis h (call_alignToFace h (SubObjects so) s)
                    else if SubElementNames so ! 0 = ''Plane'' then
                      display_axis_True h
                        (s\<lparr>wplane := setFromPlacement h (Placement obj) True (wplane s)\<rparr>)
                    else (Inr False, s))
                 else if length (SubElementNames so) = 3 then
                   (if contains (SubElementNames so ! 0) ''Vertex''
                       \<and> contains (SubElementNames so ! 1) ''Vertex''
                       \<and> contains (SubElementNames so ! 2) ''Vertex'' then
                      then_display_axis h (call_alignTo3Points h (SubObjects so) s)
                    else (Inr False, s))
                 else (Inr False, s))
              else if isPartFeature obj then
                (case Shape obj of
                   None \<Rightarrow> (Inr False, s)
                 | Some sh \<Rightarrow>
                     (if length (Faces sh) = 1 then
                        then_display_axis h (call_alignToFace h (Faces sh) s)
                      else (Inr False, s)))
              else (Inr False, s)
         else if sel \<noteq> [] then
           (if length (vertices_of sel) = 3 then
              then_display_axis h (call_alignTo3Points h (vertices_of sel) s)
            else (Inr False, s))
         else (Inr False, s))"

subsection \<open>checkSelection, action\<close>

definition checkSelection :: "'h host \<Rightarrow> 'h state \<Rightarrow> (error + unit) \<times> 'h state" where
  "checkSelection h s =
     (case handle h s of
        (Inl e, s1) \<Rightarrow> (Inl e, s1)
      | (Inr True, s1) \<Rightarrow> finish_unit h s1
      | (Inr False, s1) \<Rightarrow> (Inr (), s1))"

text \<open>\<open>todo.delay(self.checkSelection, None)\<close>: the task joins the queue of delayed tasks.\<close>

definition todo_delay :: "task \<Rightarrow> 'h state \<Rightarrow> 'h state" where
  "todo_delay t s = s\<lparr>todo := todo s @ [t]\<rparr>"

text \<open>The event dictionary \<open>arg\<close>; a missing key raises \<open>KeyError\<close>.\<close>

type_synonym soevent = "string \<rightharpoonup> string"

definition action_mouse :: "soevent \<Rightarrow> 'h state \<Rightarrow> (error + unit) \<times> 'h state" where
  "action_mouse arg s =
     (case arg ''Type'' of
        None \<Rightarrow> (Inl KeyError, s)
      | Some ty \<Rightarrow>
          (if ty = ''SoMouseButtonEvent'' then
             (case arg ''State'' of
                None \<Rightarrow> (Inl KeyError, s)
              | Some st \<Rightarrow>
                  (if st = ''DOWN'' then
                     (case arg ''Button'' of
                        None \<Rightarrow> (Inl KeyError, s)
                      | Some b \<Rightarrow>
                          (if b = ''BUTTON1'' then (Inr (), todo_delay CheckSelection s)
                           else (Inr (), s)))
                   else (Inr (), s)))
           else (Inr (), s)))"

definition action :: "'h host \<Rightarrow> soevent \<Rightarrow> 'h state \<Rightarrow> (error + unit) \<times> 'h state" where
  "action h arg s =
     (case arg ''Type'' of
        None \<Rightarrow> (Inl KeyError, s)
      | Some ty \<Rightarrow>
          (if ty = ''SoKeyboardEvent'' then
             (case arg ''Key'' of
                None \<Rightarrow> (Inl KeyError, s)
              | Some k \<Rightarrow>
                  (if k = ''ESCAPE'' then
                     (case finish h s of
                        (Inl e, s1) \<Rightarrow> (Inl e, s1)
                      | (Inr _, s1) \<Rightarrow> action_mouse arg s1)
                   else action_mouse arg s))
           else action_mouse arg s))"

subsection \<open>The buttons\<close>

text \<open>\<open>self.ac\<close>\<close>

definition ac :: string where
  "ac = ''FreeCAD.DraftWorkingPlane.alignToPointAndAxis''"

text \<open>
  The body shared by \<open>onClickTop\<close>, \<open>onClickFront\<close> and \<open>onClickSide\<close>, which differ in the
  direction \<open>(x, y, z)\<close> and the label only. The command text goes to \<open>doCommandGui\<close>;
  running it calls the working plane's \<open>alignToPointAndAxis\<close> with the centre point, the
  direction and the offset the text spells out.
\<close>

definition onClickCanonical ::
  "'h host \<Rightarrow> int \<times> int \<times> int \<Rightarrow> string \<Rightarrow> 'h state \<Rightarrow> (error + unit) \<times> 'h state" where
  "onClickCanonical h t label s =
     (case t of (x, y, z) \<Rightarrow>
     (case getOffset h s of
        Inl e \<Rightarrow> (Inl e, s)
      | Inr off \<Rightarrow>
     (case getCenterPoint h (of_int x) (of_int y) (of_int z) s of
        Inl e \<Rightarrow> (Inl e, s)
      | Inr cp \<Rightarrow>
          let cmd = ac @ ''('' @ tostr h cp @ '', '' @ tostr_tuple t @ '', '' @ str_float h off
                      @ '')'';
              s1 = s\<lparr>commands := commands s @ [cmd],
                     wplane := alignToPointAndAxis h cp
                                 (Vector (of_int x) (of_int y) (of_int z)) off (wplane s)\<rparr>
          in display_finish h (Str label) s1)))"

definition onClickTop :: "'h host \<Rightarrow> 'h state \<Rightarrow> (error + unit) \<times> 'h state" where
  "onClickTop h s = onClickCanonical h (0, 0, 1) ''Top'' s"

definition onClickFront :: "'h host \<Rightarrow> 'h state \<Rightarrow> (error + unit) \<times> 'h state" where
  "onClickFront h s = onClickCanonical h (0, - 1, 0) ''Front'' s"

definition onClickSide :: "'h host \<Rightarrow> 'h state \<Rightarrow> (error + unit) \<times> 'h state" where
  "onClickSide h s = onClickCanonical h (1, 0, 0) ''Side'' s"

definition onClickAlign :: "'h host \<Rightarrow> 'h state \<Rightarrow> (error + unit) \<times> 'h state" where
  "onClickAlign h s =
     (let s1 = s\<lparr>commands := commands s @ [''FreeCAD.DraftWorkingPlane.setup(force=True)''],
                 wplane := wp_setup h True (camera s) (wplane s)\<rparr>;
          d = negative (getViewDirection h (camera s1))
      in display_finish h (Vec d) s1)"

definition onClickAuto :: "'h host \<Rightarrow> 'h state \<Rightarrow> (error + unit) \<times> 'h state" where
  "onClickAuto h s =
     (let s1 = s\<lparr>commands := commands s @ [''FreeCAD.DraftWorkingPlane.reset()''],
                 wplane := wp_reset h (wplane s)\<rparr>
      in display_finish h (Str ''Auto'') s1)"

definition onClickMove :: "'h host \<Rightarrow> 'h state \<Rightarrow> (error + unit) \<times> 'h state" where
  "onClickMove h s =
     (if selection s \<noteq> [] then
        (let verts = vertices_of (selection s)
         in if length verts = 1 then
              (case Point (verts ! 0) of
                 Inl e \<Rightarrow> (Inl e, s)
               | Inr target \<Rightarrow>
                   display_finish h (Vec target)
                     (s\<lparr>wplane := (wplane s)\<lparr>position := target\<rparr>\<rparr>))
            else (Inr (), s))
      else
        (let p = cam_position (camera s);
             d = getViewDirection h (camera s);
             pp = projectPoint h p (Some d) (wplane s)
         in display_finish h (Vec pp) (s\<lparr>wplane := (wplane s)\<lparr>position := pp\<rparr>\<rparr>)))"

definition onClickCenter :: "'h host \<Rightarrow> 'h state \<Rightarrow> (error + unit) \<times> 'h state" where
  "onClickCenter h s =
     (let c1 = (camera s)\<lparr>orientation := getRotationQ h (wplane s)\<rparr>;
          p = cam_position c1;
          pp = projectPoint h p None (wplane s);
          delta = negative pp;
          np = add p delta
      in finish_unit h (s\<lparr>camera := c1\<lparr>cam_position := np\<rparr>\<rparr>))"

text \<open>The four assignments \<open>p.u = s[0]\<close>, \<open>p.v = s[1]\<close>, \<open>p.axis = s[2]\<close>, \<open>p.position = s[3]\<close>.\<close>

definition apply_entry :: "wpstate \<Rightarrow> 'h wplane \<Rightarrow> 'h wplane" where
  "apply_entry e p =
     (case e of (s0, s1, s2, s3) \<Rightarrow> p\<lparr>u := s0, v := s1, axis := s2, position := s3\<rparr>)"

text \<open>\<open>onClickPrevious\<close>: \<open>pop()\<close> drops the last entry, \<open>states[-1]\<close> is the last one left.\<close>

definition onClickPrevious :: "'h host \<Rightarrow> 'h state \<Rightarrow> (error + unit) \<times> 'h state" where
  "onClickPrevious h s =
     (if length (states s) > 1 then
        (let sts = butlast (states s)
         in case Snapper_setGrid
                   (s\<lparr>states := sts, wplane := apply_entry (last sts) (wplane s)\<rparr>) of
              (Inl e, s') \<Rightarrow> (Inl e, s')
            | (Inr _, s') \<Rightarrow> finish_unit h s')
      else (Inr (), s))"

subsection \<open>Activated\<close>

text \<open>The new task panel with its values filled from the parameters.\<close>

definition filled_panel :: "'h host \<Rightarrow> params \<Rightarrow> form" where
  "filled_panel h p =
     (newTaskPanel h)
       \<lparr>checkCenter := GetBool p ''CenterPlaneOnView'' False,
        fieldGridSpacing := UserString h (GetFloat p ''gridSpacing'' 1),
        fieldGridMainLine := GetInt p ''gridEvery'' 10,
        fieldSnapRadius := GetInt p ''snapRange'' 8\<rparr>"

text \<open>
  The first part of \<open>Activated\<close>, up to the connection of the slots. \<open>Draft.get3DView()\<close>
  binds \<open>self.view\<close> to a view that exists.
\<close>

definition Activated_prepare :: "'h host \<Rightarrow> 'h state \<Rightarrow> 'h state" where
  "Activated_prepare h s =
     (let s0 = s\<lparr>viewDeleted := False\<rparr>;
          s1 = s0\<lparr>wplane := wp_setup h False (camera s0) (wplane s0)\<rparr>;
          s2 = (if states s1 = [] then s1\<lparr>states := states s1 @ [snapshot (wplane s1)]\<rparr>
                else s1);
          s3 = s2\<lparr>messages := messages s2 @
                  [translate h ''draft''
                     ''Pick a face, 3 vertices or a WP Proxy to define the drawing plane'']\<rparr>;
          s4 = s3\<lparr>dialogShown := False\<rparr>
      in s4\<lparr>taskd := filled_panel h (param s4)\<rparr>)"

definition Activated :: "'h host \<Rightarrow> 'h state \<Rightarrow> (error + unit) \<times> 'h state" where
  "Activated h s =
     (case handle h (Activated_prepare h s) of
        (Inl e, s1) \<Rightarrow> (Inl e, s1)
      | (Inr True, s1) \<Rightarrow> (Inr (), s1)
      | (Inr False, s1) \<Rightarrow>
          (case alignToSelection h (selection s1) (wplane s1) of
             (ok, p) \<Rightarrow>
               (if ok then
                  (let s2 = s1\<lparr>wplane := p, selection := []\<rparr>
                   in display_finish h (Vec (axis (wplane s2))) s2)
                else
                  (Inr (), s1\<lparr>wplane := p,
                               dialogShown := True,
                               viewCallbacks := viewCallbacks s1 @ [SoEventCallback],
                               call := Some (Some SoEventCallback)\<rparr>))))"

subsection \<open>The session as a sequence of events\<close>

text \<open>
  What can happen once the command is registered: the command is started, a slot of the
  task panel or the view's callback runs, the host runs a delayed task, or the user
  changes the selection or edits a widget of the panel. An exception that leaves a slot
  is reported by the host and the session goes on from the state reached.
\<close>

datatype ui_event =
    Activate
  | ClickTop | ClickFront | ClickSide | ClickAlign | ClickAuto | ClickMove | ClickCenter
  | ClickPrevious
  | Reject
  | SoEvent soevent
  | EditGridSize string | EditMainline int | EditSnapRadius int
  | EditOffset string | ToggleCenter bool
  | Select "selobj list"
  | RunDelayed

definition step :: "'h host \<Rightarrow> ui_event \<Rightarrow> 'h state \<Rightarrow> 'h state" where
  "step h ev s =
     (case ev of
        Activate \<Rightarrow> snd (Activated h s)
      | ClickTop \<Rightarrow> snd (onClickTop h s)
      | ClickFront \<Rightarrow> snd (onClickFront h s)
      | ClickSide \<Rightarrow> snd (onClickSide h s)
      | ClickAlign \<Rightarrow> snd (onClickAlign h s)
      | ClickAuto \<Rightarrow> snd (onClickAuto h s)
      | ClickMove \<Rightarrow> snd (onClickMove h s)
      | ClickCenter \<Rightarrow> snd (onClickCenter h s)
      | ClickPrevious \<Rightarrow> snd (onClickPrevious h s)
      | Reject \<Rightarrow> snd (reject h s)
      | SoEvent arg \<Rightarrow> snd (action h arg s)
      | EditGridSize t \<Rightarrow> onSetGridSize h t (s\<lparr>taskd := (taskd s)\<lparr>fieldGridSpacing := t\<rparr>\<rparr>)
      | EditMainline i \<Rightarrow> onSetMainline i (s\<lparr>taskd := (taskd s)\<lparr>fieldGridMainLine := i\<rparr>\<rparr>)
      | EditSnapRadius i \<Rightarrow> onSetSnapRadius i (s\<lparr>taskd := (taskd s)\<lparr>fieldSnapRadius := i\<rparr>\<rparr>)
      | EditOffset t \<Rightarrow> s\<lparr>taskd := (taskd s)\<lparr>fieldOffset := t\<rparr>\<rparr>
      | ToggleCenter b \<Rightarrow> s\<lparr>taskd := (taskd s)\<lparr>checkCenter := b\<rparr>\<rparr>
      | Select sel \<Rightarrow> s\<lparr>selection := sel\<rparr>
      | RunDelayed \<Rightarrow>
          (case todo s of
             [] \<Rightarrow> s
           | CheckSelection # ts \<Rightarrow> snd (checkSelection h (s\<lparr>todo := ts\<rparr>))))"

fun run :: "'h host \<Rightarrow> ui_event list \<Rightarrow> 'h state \<Rightarrow> 'h state" where
  "run h [] s = s"
| "run h (ev # evs) s = run h evs (step h ev s)"

subsection \<open>A host and a state to evaluate on\<close>

text \<open>
  Modelled from the spec: the working plane's \<open>alignToPointAndAxis\<close> is not part of the
  module. The spec's canonical plane has the button's direction as its normal and, as its
  origin, the centre point "offset along \<open>direction\<close> by \<open>offset\<close>".
\<close>

definition spec_alignToPointAndAxis ::
  "vec \<Rightarrow> vec \<Rightarrow> real \<Rightarrow> 'h wplane \<Rightarrow> 'h wplane" where
  "spec_alignToPointAndAxis point direction off p =
     p\<lparr>axis := direction,
       position := add point (Vector (off * vx direction) (off * vy direction)
                                (off * vz direction))\<rparr>"

text \<open>
  A stand-in for the host, for evaluating the methods on concrete inputs. Its \<open>str\<close> and
  \<open>float\<close> agree with Python's on the few values used; its \<open>alignTo3Points\<close> reports
  failure on collinear points, and its \<open>restore\<close> finds nothing saved.
\<close>

definition demo_str :: "real \<Rightarrow> string" where
  "demo_str x =
     (if x = 0 then ''0.0'' else if x = 1 then ''1.0'' else if x = - 1 then ''-1.0''
      else if x = 2 then ''2.0'' else if x = 5 then ''5.0'' else ''?'')"

definition demo_float :: "string \<Rightarrow> real option" where
  "demo_float t =
     (if t = ''0'' then Some 0 else if t = ''5'' then Some 5 else if t = ''-1'' then Some (- 1)
      else None)"

definition cross :: "vec \<Rightarrow> vec \<Rightarrow> vec" where
  "cross a b =
     Vector (vy a * vz b - vz a * vy b) (vz a * vx b - vx a * vz b) (vx a * vy b - vy a * vx b)"

definition demo_alignTo3Points ::
  "vec \<Rightarrow> vec \<Rightarrow> vec \<Rightarrow> real \<Rightarrow> unit wplane \<Rightarrow> bool \<times> unit wplane" where
  "demo_alignTo3Points p1 p2 p3 off p =
     (let n = cross (add p2 (negative p1)) (add p3 (negative p1))
      in if n = Vector0 then (False, p)
         else (True, spec_alignToPointAndAxis p1 n off p))"

definition demo_host :: "unit host" where
  "demo_host =
     \<lparr>translate = (\<lambda>c t. t),
      str_float = demo_str,
      float = demo_float,
      Quantity = (\<lambda>t. None),
      UserString = (\<lambda>x. demo_str x @ '' mm''),
      pyBool = (\<lambda>t. if t = ''True'' then Some True else if t = ''False'' then Some False
                     else None),
      math_cos = (\<lambda>a. 1),
      project = (\<lambda>a b. b),
      getAngle = (\<lambda>a b. 0),
      Length = (\<lambda>a. 1),
      scaleTo = (\<lambda>a l. a),
      getViewDirection = (\<lambda>c. Vector 0 0 (- 1)),
      newTaskPanel = \<lparr>checkCenter = False, fieldOffset = ''0'', fieldGridSpacing = [],
                      fieldGridMainLine = 10, fieldSnapRadius = 8\<rparr>,
      wp_setup = (\<lambda>force c p. p),
      wp_restore = (\<lambda>p. p),
      wp_reset = (\<lambda>p. p),
      alignToEdges = (\<lambda>es p. (False, p)),
      alignToFace = (\<lambda>f off p. (True, p)),
      alignTo3Points = demo_alignTo3Points,
      alignToPointAndAxis = spec_alignToPointAndAxis,
      alignToSelection = (\<lambda>sel p. (False, p)),
      setFromPlacement = (\<lambda>pl rebase p. p\<lparr>position := fst pl\<rparr>),
      projectPoint = (\<lambda>pt d p. pt),
      getRotationQ = (\<lambda>p. (0, 0, 0, 1))\<rparr>"

text \<open>The top plane and the side plane as history entries.\<close>

definition top_entry :: wpstate where
  "top_entry = (Vector 1 0 0, Vector 0 1 0, Vector 0 0 1, Vector0)"

definition side_entry :: wpstate where
  "side_entry = (Vector 0 1 0, Vector 0 0 1, Vector 1 0 0, Vector0)"

text \<open>
  A session awaiting a selection: the dialog is shown and the callback installed, the
  working plane is the top plane, the offset field holds \<open>0\<close> and nothing is selected.
\<close>

definition demo_state :: "unit state" where
  "demo_state =
     \<lparr>states = [top_entry],
      param = \<lparr>bools = Map.empty, ints = Map.empty, floats = Map.empty\<rparr>,
      taskd = \<lparr>checkCenter = False, fieldOffset = ''0'', fieldGridSpacing = ''1.0 mm'',
                fieldGridMainLine = 10, fieldSnapRadius = 8\<rparr>,
      call = Some (Some SoEventCallback),
      wpButton = \<lparr>buttonText = ''Top'',
                   toolTip = ''Current working plane: Top Dir: (0.0,0.0,1.0)''\<rparr>,
      wplane = \<lparr>u = Vector 1 0 0, v = Vector 0 1 0, axis = Vector 0 0 1, position = Vector0,
                 weak = False, internals = ()\<rparr>,
      selection = [],
      camera = \<lparr>kind = SoOrthographicCamera, cam_position = Vector 0 0 5,
                 orientation = (0, 0, 0, 1), nearDistance = 0, farDistance = 5,
                 aspectRatio = 1, focalDistance = 5, height = 5, heightAngle = 0\<rparr>,
      viewDeleted = False,
      viewCallbacks = [SoEventCallback],
      dialogShown = True,
      visibility = Map.empty,
      hasSnapper = True,
      gridRefreshes = 0,
      radiusShown = 0,
      commands = [],
      messages = [],
      todo = [],
      editResets = 0\<rparr>"

text \<open>A document object with nothing special about it, and a selection entry of it.\<close>

definition plain_obj :: docobj where
  "plain_obj =
     \<lparr>getType = ''Wire'', Label = ''Wire'', Placement = (Vector0, (0, 0, 0, 1)),
      isPartFeature = True, Shape = Some ([], [Edge 1, Edge 2]),
      ViewObject = \<lparr>AutoWorkingPlane = None, CutView = None, AutoCutView = None,
                     RestoreView = None, ViewData = None, RestoreState = None,
                     VisibilityMap = None\<rparr>\<rparr>"

text \<open>Three vertices of one object on a line: the points (0,0,0), (1,0,0), (2,0,0).\<close>

definition collinear_pick :: "selobj list" where
  "collinear_pick =
     [\<lparr>Object = plain_obj, HasSubObjects = True,
       SubElementNames = [''Vertex1'', ''Vertex2'', ''Vertex3''],
       SubObjects = [Vertex (Vector 0 0 0), Vertex (Vector 1 0 0), Vertex (Vector 2 0 0)]\<rparr>]"

text \<open>One edge of an object: none of the shapes \<open>handle\<close> looks for.\<close>

definition edge_pick :: "selobj list" where
  "edge_pick =
     [\<lparr>Object = plain_obj, HasSubObjects = True, SubElementNames = [''Edge1''],
       SubObjects = [Edge 1]\<rparr>]"

text \<open>One face of an object.\<close>

definition face_pick :: "selobj list" where
  "face_pick =
     [\<lparr>Object = plain_obj, HasSubObjects = True, SubElementNames = [''Face1''],
       SubObjects = [Face 1]\<rparr>]"

text \<open>The event the view sends for a press of the first mouse button.\<close>

definition button1_down :: soevent where
  "button1_down =
     [''Type'' \<mapsto> ''SoMouseButtonEvent'', ''State'' \<mapsto> ''DOWN'', ''Button'' \<mapsto> ''BUTTON1'']"


text \<open>
  What a branch of \<open>handle\<close> that reaches \<open>display\<close> does to the history: it never returns
  \<open>False\<close>; when it returns \<open>True\<close> the history has grown by the snapshot of the plane it
  leaves, and when it raises the history is as before or has grown by that snapshot.
\<close>

definition pushes :: "'h state \<Rightarrow> (error + bool) \<times> 'h state \<Rightarrow> bool" where
  "pushes s r =
     (fst r \<noteq> Inr False \<and>
      (if fst r = Inr True then states (snd r) = states s @ [snapshot (wplane (snd r))]
       else states (snd r) = states s \<or> states (snd r) = states s @ [snapshot (wplane (snd r))]))"


text \<open>
  A session awaiting a selection whose history holds the side plane and, on top, the top
  plane it is on.
\<close>

definition two_entry_state :: "unit state" where
  "two_entry_state = demo_state\<lparr>states := [side_entry, top_entry]\<rparr>"

text \<open>
  The selections the tool is documented to take, in the order \<open>handle\<close> looks for them: of
  a single selected object, an axis object, a working-plane proxy (or building part), a
  section plane, one sub-element that is a face or is named \<open>Plane\<close>, three sub-elements
  that are vertices, or, with no sub-elements, a part feature with exactly one face; of
  several selected objects, three vertices among all their sub-objects.
\<close>

definition recognized :: "selobj list \<Rightarrow> bool" where
  "recognized sel =
     (case sel of
        [] \<Rightarrow> False
      | [so] \<Rightarrow>
          getType (Object so) = ''Axis''
          \<or> getType (Object so) = ''WorkingPlaneProxy''
          \<or> getType (Object so) = ''BuildingPart''
          \<or> getType (Object so) = ''SectionPlane''
          \<or> (if HasSubObjects so then
                (length (SubElementNames so) = 1
                 \<and> (contains (SubElementNames so ! 0) ''Face''
                      \<or> SubElementNames so ! 0 = ''Plane''))
                \<or> (length (SubElementNames so) = 3
                    \<and> contains (SubElementNames so ! 0) ''Vertex''
                    \<and> contains (SubElementNames so ! 1) ''Vertex''
                    \<and> contains (SubElementNames so ! 2) ''Vertex'')
              else
                (isPartFeature (Object so)
                 \<and> (case Shape (Object so) of
                        None \<Rightarrow> False
                      | Some sh \<Rightarrow> length (Faces sh) = 1)))
      | _ \<Rightarrow> length (vertices_of sel) = 3)"

section \<open>Auxiliary facts\<close>

lemma getOffset_frame [simp]:
  "getOffset h (s\<lparr>wplane := p\<rparr>) = getOffset h s"
  "getOffset h (s\<lparr>commands := c\<rparr>) = getOffset h s"
  "getOffset h (s\<lparr>states := st\<rparr>) = getOffset h s"
  "getOffset h (s\<lparr>selection := sel\<rparr>) = getOffset h s"
  "getOffset h (s\<lparr>camera := cam\<rparr>) = getOffset h s"
  "getOffset h (s\<lparr>wpButton := b\<rparr>) = getOffset h s"
  by (simp_all add: getOffset_def split: option.splits)

lemma finish_eq:
  "finish h s =
     (case call s of
        None \<Rightarrow> (Inl AttributeError,
                  s\<lparr>param := SetBool ''CenterPlaneOnView'' (checkCenter (taskd s)) (param s)\<rparr>)
      | Some c \<Rightarrow>
          (Inr True,
           s\<lparr>param := SetBool ''CenterPlaneOnView'' (checkCenter (taskd s)) (param s),
             viewCallbacks := (case c of None \<Rightarrow> viewCallbacks s
                               | Some cb \<Rightarrow> if viewDeleted s then viewCallbacks s
                                            else remove1 cb (viewCallbacks s)),
             call := Some None,
             dialogShown := False,
             wplane := wp_restore h (wplane s),
             editResets := Suc (editResets s)\<rparr>))"
  by (simp add: finish_def Let_def split: option.splits)

lemma finish_frame [simp]:
  "states (snd (finish h s)) = states s"
  "wpButton (snd (finish h s)) = wpButton s"
  "camera (snd (finish h s)) = camera s"
  "commands (snd (finish h s)) = commands s"
  "selection (snd (finish h s)) = selection s"
  "todo (snd (finish h s)) = todo s"
  "hasSnapper (snd (finish h s)) = hasSnapper s"
  by (simp_all add: finish_eq split: option.splits)

lemma wplane_finish:
  "wplane (snd (finish h s)) = (if call s = None then wplane s else wp_restore h (wplane s))"
  by (simp add: finish_eq split: option.splits)

lemma fst_finish: "fst (finish h s) = (if call s = None then Inl AttributeError else Inr True)"
  by (simp add: finish_eq split: option.splits)

lemma finish_unit_eq:
  "finish_unit h s = ((if call s = None then Inl AttributeError else Inr ()), snd (finish h s))"
  by (simp add: finish_unit_def finish_eq split: option.splits)


lemma display_eq:
  "display h arg s =
     (case getOffset h s of
        Inl e \<Rightarrow> (Inl e, s)
      | Inr off \<Rightarrow>
          ((if hasSnapper s then Inr () else Inl AttributeError),
           s\<lparr>wpButton := status_of h arg off (axis (wplane s)),
             states := states s @ [snapshot (wplane s)],
             commands := commands s @ [''FreeCADGui.Snapper.setGrid()''],
             gridRefreshes := (if hasSnapper s then Suc (gridRefreshes s) else gridRefreshes s)\<rparr>))"
  by (simp add: display_def doCommandGui_setGrid_def Snapper_setGrid_def Let_def
      split: sum.splits)

lemma getOffset_cong:
  "taskd s' = taskd s \<Longrightarrow> getOffset h s' = getOffset h s"
  by (simp add: getOffset_def split: option.splits)

lemma restore_visibility_frame:
  "states (snd (restore_visibility h kvs s)) = states s \<and>
   wplane (snd (restore_visibility h kvs s)) = wplane s \<and>
   taskd (snd (restore_visibility h kvs s)) = taskd s \<and>
   hasSnapper (snd (restore_visibility h kvs s)) = hasSnapper s \<and>
   wpButton (snd (restore_visibility h kvs s)) = wpButton s"
proof (induction kvs arbitrary: s)
  case Nil
  show ?case by simp
next
  case (Cons kv kvs)
  obtain k w where kv: "kv = (k, w)" by (cases kv)
  show ?case
    unfolding kv
    by (simp add: Cons.IH Let_def split: option.splits)
qed

lemma restore_state_frame:
  "states (snd (restore_state h vo s)) = states s \<and>
   wplane (snd (restore_state h vo s)) = wplane s \<and>
   taskd (snd (restore_state h vo s)) = taskd s \<and>
   hasSnapper (snd (restore_state h vo s)) = hasSnapper s \<and>
   wpButton (snd (restore_state h vo s)) = wpButton s"
  by (simp add: restore_state_def restore_visibility_frame split: option.splits)

lemma call_alignToFace_frame:
  "states (snd (call_alignToFace h xs s)) = states s \<and>
   taskd (snd (call_alignToFace h xs s)) = taskd s \<and>
   hasSnapper (snd (call_alignToFace h xs s)) = hasSnapper s \<and>
   wpButton (snd (call_alignToFace h xs s)) = wpButton s"
  by (simp add: call_alignToFace_def split: sum.splits)

lemma call_alignTo3Points_frame:
  "states (snd (call_alignTo3Points h xs s)) = states s \<and>
   taskd (snd (call_alignTo3Points h xs s)) = taskd s \<and>
   hasSnapper (snd (call_alignTo3Points h xs s)) = hasSnapper s \<and>
   wpButton (snd (call_alignTo3Points h xs s)) = wpButton s"
  by (simp add: call_alignTo3Points_def split: sum.splits)

lemma pushes_display_axis_True:
  "states s1 = states s \<Longrightarrow> pushes s (display_axis_True h s1)"
  by (simp add: pushes_def display_axis_True_def display_eq split: sum.splits)

lemma pushes_display_label_True:
  "states s1 = states s \<Longrightarrow> pushes s (display_label_True h l s1)"
  by (simp add: pushes_def display_label_True_def label_button_def display_eq split: sum.splits)

lemma pushes_then_display_axis:
  "states (snd r) = states s \<Longrightarrow> pushes s (then_display_axis h r)"
  using pushes_display_axis_True [of "snd r" s h]
  by (cases r) (auto simp: then_display_axis_def pushes_def split: sum.splits)

lemma pushes_handle_proxy: "pushes s (handle_proxy h so s)"
proof -
  let ?vo = "ViewObject (Object so)"
  let ?p1 = "(setFromPlacement h (Placement (Object so)) True (wplane s))\<lparr>weak := False\<rparr>"
  let ?p2 = "if AutoWorkingPlane ?vo = Some True then ?p1\<lparr>weak := True\<rparr> else ?p1"
  let ?s2 = "s\<lparr>wplane := ?p2, selection := [auto_cut_view so],
               camera := restore_view ?vo (camera s)\<rparr>"
  let ?r = "restore_state h ?vo ?s2"
  have st: "states (snd ?r) = states s"
    by (simp add: restore_state_frame)
  have eq: "handle_proxy h so s =
      (case ?r of (Inl e, s3) \<Rightarrow> (Inl e, s3)
       | (Inr _, s3) \<Rightarrow> display_label_True h (Label (Object so)) s3)"
    by (simp add: handle_proxy_def Let_def)
  show ?thesis
  proof (cases ?r)
    case (Pair a s3)
    with st have s3: "states s3 = states s" by simp
    show ?thesis
    proof (cases a)
      case (Inl e)
      with Pair s3 eq show ?thesis by (simp add: pushes_def)
    next
      case (Inr x)
      with Pair eq pushes_display_label_True [OF s3, of h "Label (Object so)"]
      show ?thesis by simp
    qed
  qed
qed

lemma pushes_Inl: "pushes s (Inl e, s)"
  by (simp add: pushes_def)


lemma snapshot_apply_entry: "snapshot (apply_entry e p) = e"
  by (cases e) (simp add: snapshot_def apply_entry_def)

lemma onClickPrevious_eq:
  "1 < length (states s) \<Longrightarrow>
   onClickPrevious h s =
     (if hasSnapper s then
        finish_unit h (s\<lparr>states := butlast (states s),
                         wplane := apply_entry (last (butlast (states s))) (wplane s),
                         gridRefreshes := Suc (gridRefreshes s)\<rparr>)
      else (Inl AttributeError,
            s\<lparr>states := butlast (states s),
              wplane := apply_entry (last (butlast (states s))) (wplane s)\<rparr>))"
  by (simp add: onClickPrevious_def Snapper_setGrid_def Let_def)


lemma finish_unit_frame [simp]:
  "states (snd (finish_unit h s)) = states s"
  "wpButton (snd (finish_unit h s)) = wpButton s"
  "camera (snd (finish_unit h s)) = camera s"
  "commands (snd (finish_unit h s)) = commands s"
  "selection (snd (finish_unit h s)) = selection s"
  "todo (snd (finish_unit h s)) = todo s"
  by (simp_all add: finish_unit_eq)

lemma wplane_finish_unit:
  "wplane (snd (finish_unit h s)) = (if call s = None then wplane s else wp_restore h (wplane s))"
  by (simp add: finish_unit_eq wplane_finish)

lemma display_finish_frame [simp]:
  "camera (snd (display_finish h arg s)) = camera s"
  by (simp add: display_finish_def display_eq finish_unit_eq split: sum.splits)

lemma str_int_small [simp]:
  "str_int 0 = ''0''" "str_int 1 = ''1''" "str_int (- 1) = ''-1''"
  by (simp_all add: str_int_def str_nat.simps digit_def)

lemma display_finish_ok:
  assumes "getOffset h s = Inr off"
  shows "commands (snd (display_finish h arg s)) = commands s @ [''FreeCADGui.Snapper.setGrid()'']"
    and "states (snd (display_finish h arg s)) = states s @ [snapshot (wplane s)]"
    and "wpButton (snd (display_finish h arg s)) = status_of h arg off (axis (wplane s))"
    and "wplane (snd (display_finish h arg s))
           = (if hasSnapper s \<and> call s \<noteq> None then wp_restore h (wplane s) else wplane s)"
    and "fst (display_finish h arg s)
           = (if hasSnapper s \<and> call s \<noteq> None then Inr () else Inl AttributeError)"
  using assms
  by (simp_all add: display_finish_def display_eq finish_unit_eq wplane_finish)


lemma display_Inr:
  assumes "display h arg s = (Inr (), s1)"
  shows "hasSnapper s" and "\<exists>off. getOffset h s = Inr off"
    and "states s1 = states s @ [snapshot (wplane s)]"
    and "wplane s1 = wplane s" and "call s1 = call s" and "hasSnapper s1"
  using assms by (auto simp: display_eq split: sum.splits if_splits)

lemma onClickPrevious_result:
  assumes "1 < length (states s)"
  shows "states (snd (onClickPrevious h s)) = butlast (states s)"
    and "wplane (snd (onClickPrevious h s))
           = (if hasSnapper s \<and> call s \<noteq> None
              then wp_restore h (apply_entry (last (butlast (states s))) (wplane s))
              else apply_entry (last (butlast (states s))) (wplane s))"
    and "wpButton (snd (onClickPrevious h s)) = wpButton s"
    and "gridRefreshes (snd (onClickPrevious h s))
           = (if hasSnapper s then Suc (gridRefreshes s) else gridRefreshes s)"
    and "fst (onClickPrevious h s)
           = (if hasSnapper s \<and> call s \<noteq> None then Inr () else Inl AttributeError)"
    and "dialogShown (snd (onClickPrevious h s))
           = (if hasSnapper s \<and> call s \<noteq> None then False else dialogShown s)"
  using assms
  by (auto simp: onClickPrevious_eq finish_unit_eq finish_eq split: option.splits)


























lemma handle_unrecognized:
  "\<not> recognized (selection s) \<Longrightarrow> handle h s = (Inr False, s)"
  unfolding handle_def recognized_def Let_def
  by (auto split: list.splits option.splits if_splits)

lemma handle_recognized:
  "recognized (selection s) \<Longrightarrow> pushes s (handle h s)"
  unfolding handle_def recognized_def Let_def
  by (auto simp: pushes_Inl pushes_handle_proxy pushes_display_axis_True
      pushes_display_label_True pushes_then_display_axis call_alignToFace_frame
      call_alignTo3Points_frame
      split: list.splits option.splits if_splits)

lemma handle_False_iff: "fst (handle h s) = Inr False \<longleftrightarrow> \<not> recognized (selection s)"
  using handle_unrecognized [of s h] handle_recognized [of s h]
  by (auto simp: pushes_def)

lemma getOffset_field:
  assumes "float h (fieldOffset (taskd s)) = Some off \<or>
           (float h (fieldOffset (taskd s)) = None \<and>
            Quantity h (fieldOffset (taskd s)) = Some off)"
  shows "getOffset h s = Inr off"
  using assms by (auto simp: getOffset_def)

lemma onClickCanonical_eq_cp:
  assumes "getOffset h s = Inr off"
    and "getCenterPoint h (of_int x) (of_int y) (of_int z) s = Inr cp"
  shows "onClickCanonical h (x, y, z) l s =
           display_finish h (Str l)
             (s\<lparr>commands := commands s @
                    [ac @ ''('' @ tostr h cp @ '', '' @ tostr_tuple (x, y, z) @ '', ''
                       @ str_float h off @ '')''],
                wplane := alignToPointAndAxis h cp
                            (Vector (of_int x) (of_int y) (of_int z)) off (wplane s)\<rparr>)"
  using assms by (simp add: onClickCanonical_def Let_def)

lemma onClickCanonical_result:
  assumes "getOffset h s = Inr off"
    and "getCenterPoint h (of_int x) (of_int y) (of_int z) s = Inr cp"
  shows "commands (snd (onClickCanonical h (x, y, z) l s)) =
           commands s @
             [ac @ ''('' @ tostr h cp @ '', '' @ tostr_tuple (x, y, z) @ '', ''
                @ str_float h off @ '')'',
              ''FreeCADGui.Snapper.setGrid()'']"
    and "wplane (snd (onClickCanonical h (x, y, z) l s)) =
           (if hasSnapper s \<and> call s \<noteq> None
            then wp_restore h (alignToPointAndAxis h cp
                                 (Vector (of_int x) (of_int y) (of_int z)) off (wplane s))
            else alignToPointAndAxis h cp
                   (Vector (of_int x) (of_int y) (of_int z)) off (wplane s))"
proof -
  have off': "getOffset h (s\<lparr>commands := c, wplane := p\<rparr>) = Inr off" for c p
    using assms(1) by simp
  show "commands (snd (onClickCanonical h (x, y, z) l s)) =
           commands s @
             [ac @ ''('' @ tostr h cp @ '', '' @ tostr_tuple (x, y, z) @ '', ''
                @ str_float h off @ '')'',
              ''FreeCADGui.Snapper.setGrid()'']"
    unfolding onClickCanonical_eq_cp [OF assms]
    by (simp add: display_finish_ok(1) [OF off'])
  show "wplane (snd (onClickCanonical h (x, y, z) l s)) =
           (if hasSnapper s \<and> call s \<noteq> None
            then wp_restore h (alignToPointAndAxis h cp
                                 (Vector (of_int x) (of_int y) (of_int z)) off (wplane s))
            else alignToPointAndAxis h cp
                   (Vector (of_int x) (of_int y) (of_int z)) off (wplane s))"
    unfolding onClickCanonical_eq_cp [OF assms]
    by (auto simp: display_finish_ok(4) [OF off'])
qed



section \<open>Properties\<close>

subsection \<open>Cancelling\<close>




subsection \<open>The history\<close>



subsection \<open>Selections that do not give a plane\<close>

text \<open>
  C3, evaluated. Three vertices of one object are picked, on a line, and the host's
  \<open>alignTo3Points\<close> reports failure and leaves the working plane as it is. \<open>handle\<close> does
  not read the report: it calls \<open>display\<close>, which appends an entry to the history, and
  returns \<open>True\<close>, so \<open>checkSelection\<close> finishes the session (the dialog is closed, the
  callback removed). A picked edge, which is none of the shapes \<open>handle\<close> looks for, leaves
  the state as it was.
\<close>

theorem handle_collinear_points_returns_True:
  "recognized collinear_pick \<and>
   alignTo3Points demo_host (Vector 0 0 0) (Vector 1 0 0) (Vector 2 0 0) 0 (wplane demo_state)
     = (False, wplane demo_state) \<and>
   fst (handle demo_host (demo_state\<lparr>selection := collinear_pick\<rparr>)) = Inr True \<and>
   states (snd (handle demo_host (demo_state\<lparr>selection := collinear_pick\<rparr>)))
     = [top_entry, top_entry] \<and>
   fst (checkSelection demo_host (demo_state\<lparr>selection := collinear_pick\<rparr>)) = Inr () \<and>
   \<not> dialogShown (snd (checkSelection demo_host (demo_state\<lparr>selection := collinear_pick\<rparr>))) \<and>
   viewCallbacks (snd (checkSelection demo_host (demo_state\<lparr>selection := collinear_pick\<rparr>)))
     = [] \<and>
   \<not> recognized edge_pick \<and>
   checkSelection demo_host (demo_state\<lparr>selection := edge_pick\<rparr>)
     = (Inr (), demo_state\<lparr>selection := edge_pick\<rparr>)"
  by (simp add: checkSelection_def handle_def recognized_def collinear_pick_def edge_pick_def
      plain_obj_def then_display_axis_def call_alignTo3Points_def point_at_def getitem_def
      display_axis_True_def display_eq finish_unit_eq finish_eq Let_def getOffset_def
      demo_host_def demo_state_def demo_float_def demo_alignTo3Points_def cross_def add_def
      negative_def Vector0_def snapshot_def top_entry_def)

subsection \<open>The previous button\<close>

text \<open>
  C4, as the code has it. With more than one entry in the history, \<open>onClickPrevious\<close>
  drops the last entry and assigns the four components of the new last entry to the
  working plane, refreshes the grid and calls \<open>finish\<close>, which closes the dialog and hands
  the plane to the working plane's \<open>restore\<close> (without a Snapper the call raises after the
  assignment, and without a \<open>call\<close> attribute \<open>finish\<close> raises). The status text on the
  button is not written: it is the one from before the call.
\<close>

theorem previous_applies_new_top:
  assumes "1 < length (states s)"
  shows "states (snd (onClickPrevious h s)) = butlast (states s) \<and>
         wplane (snd (onClickPrevious h s))
           = (if hasSnapper s \<and> call s \<noteq> None
              then wp_restore h (apply_entry (last (butlast (states s))) (wplane s))
              else apply_entry (last (butlast (states s))) (wplane s)) \<and>
         snapshot (apply_entry (last (butlast (states s))) (wplane s))
           = last (butlast (states s)) \<and>
         gridRefreshes (snd (onClickPrevious h s))
           = (if hasSnapper s then Suc (gridRefreshes s) else gridRefreshes s) \<and>
         dialogShown (snd (onClickPrevious h s))
           = (if hasSnapper s \<and> call s \<noteq> None then False else dialogShown s) \<and>
         wpButton (snd (onClickPrevious h s)) = wpButton s"
  using onClickPrevious_result [OF assms, of h]
  by (simp add: snapshot_apply_entry)

theorem previous_applies_new_top_witness:
  "states (snd (onClickPrevious demo_host two_entry_state)) = [side_entry] \<and>
   snapshot (wplane (snd (onClickPrevious demo_host two_entry_state))) = side_entry \<and>
   gridRefreshes (snd (onClickPrevious demo_host two_entry_state)) = 1 \<and>
   \<not> dialogShown (snd (onClickPrevious demo_host two_entry_state)) \<and>
   wpButton (snd (onClickPrevious demo_host two_entry_state)) = wpButton two_entry_state"
proof -
  have l: "1 < length (states two_entry_state)"
    by (simp add: two_entry_state_def)
  show ?thesis
    using previous_applies_new_top [OF l, of demo_host]
    by (simp add: two_entry_state_def demo_state_def demo_host_def snapshot_apply_entry)
qed

text \<open>
  C4 as stated fails. The history holds the side plane and the top plane, the working
  plane is the top plane and the button says so. After \<open>onClickPrevious\<close> the plane's axis
  is (1, 0, 0), and the tooltip still reads \<open>Top\<close> with the direction (0.0,0.0,1.0): the
  direction text \<open>display\<close> would write for the restored plane is not in it.
\<close>

theorem previous_keeps_status_counterexample:
  "1 < length (states two_entry_state) \<and>
   axis (wplane two_entry_state) = Vector 0 0 1 \<and>
   axis (wplane (snd (onClickPrevious demo_host two_entry_state))) = Vector 1 0 0 \<and>
   vdir_of demo_host (Vector 1 0 0) = '' Dir: (1.0,0.0,0.0)'' \<and>
   toolTip (wpButton (snd (onClickPrevious demo_host two_entry_state)))
     = ''Current working plane: Top Dir: (0.0,0.0,1.0)'' \<and>
   \<not> contains (toolTip (wpButton (snd (onClickPrevious demo_host two_entry_state))))
         (vdir_of demo_host (Vector 1 0 0))"
  by (simp add: onClickPrevious_eq finish_unit_eq finish_eq two_entry_state_def demo_state_def
      demo_host_def apply_entry_def side_entry_def vdir_of_def demo_str_def)

subsection \<open>Push, then previous\<close>

text \<open>
  C5. Let the history be non-empty and let \<open>display\<close> return normally: it has appended
  the snapshot of the working plane. \<open>onClickPrevious\<close> right after it leaves the history
  as it was before the push, and has assigned to the working plane the four components of
  the entry that was on top before the push; \<open>finish\<close> then hands that plane to the working
  plane's \<open>restore\<close>, and where \<open>restore\<close> leaves it alone (nothing was saved) the plane's
  snapshot is exactly that entry.
\<close>

theorem push_then_previous_roundtrip:
  assumes "states s \<noteq> []" and "display h arg s = (Inr (), s1)"
  shows "states s1 = states s @ [snapshot (wplane s)] \<and>
         states (snd (onClickPrevious h s1)) = states s \<and>
         wplane (snd (onClickPrevious h s1))
           = (if call s = None then apply_entry (last (states s)) (wplane s)
              else wp_restore h (apply_entry (last (states s)) (wplane s))) \<and>
         snapshot (apply_entry (last (states s)) (wplane s)) = last (states s) \<and>
         (wp_restore h (apply_entry (last (states s)) (wplane s))
            = apply_entry (last (states s)) (wplane s) \<longrightarrow>
          snapshot (wplane (snd (onClickPrevious h s1))) = last (states s))"
proof -
  note d = display_Inr [OF assms(2)]
  have len: "1 < length (states s1)"
    using assms(1) d(3) by (cases "states s") simp_all
  have bl: "butlast (states s1) = states s"
    using d(3) by simp
  have st: "states (snd (onClickPrevious h s1)) = states s"
    using onClickPrevious_result(1) [OF len, of h] bl by simp
  have wp: "wplane (snd (onClickPrevious h s1))
           = (if call s = None then apply_entry (last (states s)) (wplane s)
              else wp_restore h (apply_entry (last (states s)) (wplane s)))"
    using onClickPrevious_result(2) [OF len, of h] bl d(4,5,6) by auto
  show ?thesis
    using d(3) st wp by (simp add: snapshot_apply_entry)
qed

theorem push_then_previous_roundtrip_witness:
  "states (snd (onClickPrevious demo_host
             (snd (display demo_host (Str ''Side'')
                (demo_state\<lparr>wplane := apply_entry side_entry (wplane demo_state)\<rparr>)))))
     = [top_entry] \<and>
   snapshot (wplane (snd (onClickPrevious demo_host
             (snd (display demo_host (Str ''Side'')
                (demo_state\<lparr>wplane := apply_entry side_entry (wplane demo_state)\<rparr>))))))
     = top_entry"
proof -
  let ?s = "demo_state\<lparr>wplane := apply_entry side_entry (wplane demo_state)\<rparr>"
  have ne: "states ?s \<noteq> []"
    by (simp add: demo_state_def)
  have off: "getOffset demo_host ?s = Inr 0"
    by (simp add: getOffset_def demo_host_def demo_state_def demo_float_def)
  have sn: "hasSnapper ?s"
    by (simp add: demo_state_def)
  have d: "display demo_host (Str ''Side'') ?s = (Inr (), snd (display demo_host (Str ''Side'') ?s))"
    using off sn by (simp add: display_eq)
  have "states ?s = [top_entry]" "call ?s \<noteq> None" "wp_restore demo_host = (\<lambda>p. p)"
    by (simp_all add: demo_state_def demo_host_def)
  then show ?thesis
    using push_then_previous_roundtrip [OF ne d]
    by (simp add: snapshot_apply_entry)
qed

subsection \<open>The canonical buttons\<close>

text \<open>
  C6. Let the text of the offset field read as the number \<open>off\<close>, by \<open>float\<close> or else as a
  quantity. Whenever \<open>getCenterPoint\<close> yields a point \<open>cp\<close>, with or without centering, the
  Top, Front and Side buttons each run one \<open>alignToPointAndAxis\<close> command whose text names
  \<open>cp\<close>, the direction (0, 0, 1), (0, -1, 0) or (1, 0, 0), and \<open>off\<close>, and the working plane
  after the click is the host's \<open>alignToPointAndAxis\<close> of these three values (passed through
  the working plane's \<open>restore\<close> when \<open>finish\<close> got that far). With centering disabled the
  point is the null vector. With centering disabled and offset 0, where the host's
  \<open>alignToPointAndAxis\<close> is the one the spec describes and \<open>restore\<close> leaves its plane
  alone, the working plane after the Top click has normal (0, 0, 1) and origin (0, 0, 0).
\<close>

theorem canonical_buttons_align:
  assumes "float h (fieldOffset (taskd s)) = Some off \<or>
           (float h (fieldOffset (taskd s)) = None \<and>
            Quantity h (fieldOffset (taskd s)) = Some off)"
  shows
    "(getCenterPoint h 0 0 1 s = Inr cp \<longrightarrow>
        commands (snd (onClickTop h s)) =
          commands s @
            [''FreeCAD.DraftWorkingPlane.alignToPointAndAxis('' @ tostr h cp
               @ '', FreeCAD.Vector(0, 0, 1), '' @ str_float h off @ '')'',
             ''FreeCADGui.Snapper.setGrid()''] \<and>
        wplane (snd (onClickTop h s)) =
          (if hasSnapper s \<and> call s \<noteq> None
           then wp_restore h (alignToPointAndAxis h cp (Vector 0 0 1) off (wplane s))
           else alignToPointAndAxis h cp (Vector 0 0 1) off (wplane s))) \<and>
     (getCenterPoint h 0 (- 1) 0 s = Inr cp \<longrightarrow>
        commands (snd (onClickFront h s)) =
          commands s @
            [''FreeCAD.DraftWorkingPlane.alignToPointAndAxis('' @ tostr h cp
               @ '', FreeCAD.Vector(0, -1, 0), '' @ str_float h off @ '')'',
             ''FreeCADGui.Snapper.setGrid()''] \<and>
        wplane (snd (onClickFront h s)) =
          (if hasSnapper s \<and> call s \<noteq> None
           then wp_restore h (alignToPointAndAxis h cp (Vector 0 (- 1) 0) off (wplane s))
           else alignToPointAndAxis h cp (Vector 0 (- 1) 0) off (wplane s))) \<and>
     (getCenterPoint h 1 0 0 s = Inr cp \<longrightarrow>
        commands (snd (onClickSide h s)) =
          commands s @
            [''FreeCAD.DraftWorkingPlane.alignToPointAndAxis('' @ tostr h cp
               @ '', FreeCAD.Vector(1, 0, 0), '' @ str_float h off @ '')'',
             ''FreeCADGui.Snapper.setGrid()''] \<and>
        wplane (snd (onClickSide h s)) =
          (if hasSnapper s \<and> call s \<noteq> None
           then wp_restore h (alignToPointAndAxis h cp (Vector 1 0 0) off (wplane s))
           else alignToPointAndAxis h cp (Vector 1 0 0) off (wplane s))) \<and>
     (\<not> checkCenter (taskd s) \<longrightarrow> getCenterPoint h x y z s = Inr Vector0) \<and>
     (\<not> checkCenter (taskd s) \<longrightarrow> off = 0 \<longrightarrow>
      alignToPointAndAxis h = spec_alignToPointAndAxis \<longrightarrow>
      wp_restore h (spec_alignToPointAndAxis Vector0 (Vector 0 0 1) 0 (wplane s))
        = spec_alignToPointAndAxis Vector0 (Vector 0 0 1) 0 (wplane s) \<longrightarrow>
        axis (wplane (snd (onClickTop h s))) = Vector 0 0 1 \<and>
        position (wplane (snd (onClickTop h s))) = Vector0)"
proof -
  note off = getOffset_field [OF assms]
  have top: "getCenterPoint h 0 0 1 s = Inr c \<Longrightarrow>
        commands (snd (onClickTop h s)) =
          commands s @
            [''FreeCAD.DraftWorkingPlane.alignToPointAndAxis('' @ tostr h c
               @ '', FreeCAD.Vector(0, 0, 1), '' @ str_float h off @ '')'',
             ''FreeCADGui.Snapper.setGrid()''] \<and>
        wplane (snd (onClickTop h s)) =
          (if hasSnapper s \<and> call s \<noteq> None
           then wp_restore h (alignToPointAndAxis h c (Vector 0 0 1) off (wplane s))
           else alignToPointAndAxis h c (Vector 0 0 1) off (wplane s))" for c
    using onClickCanonical_result [OF off, of 0 0 1 c "''Top''"]
    by (auto simp: onClickTop_def ac_def tostr_tuple_def)
  have front: "getCenterPoint h 0 (- 1) 0 s = Inr c \<Longrightarrow>
        commands (snd (onClickFront h s)) =
          commands s @
            [''FreeCAD.DraftWorkingPlane.alignToPointAndAxis('' @ tostr h c
               @ '', FreeCAD.Vector(0, -1, 0), '' @ str_float h off @ '')'',
             ''FreeCADGui.Snapper.setGrid()''] \<and>
        wplane (snd (onClickFront h s)) =
          (if hasSnapper s \<and> call s \<noteq> None
           then wp_restore h (alignToPointAndAxis h c (Vector 0 (- 1) 0) off (wplane s))
           else alignToPointAndAxis h c (Vector 0 (- 1) 0) off (wplane s))" for c
    using onClickCanonical_result [OF off, of 0 "- 1" 0 c "''Front''"]
    by (auto simp: onClickFront_def ac_def tostr_tuple_def)
  have side: "getCenterPoint h 1 0 0 s = Inr c \<Longrightarrow>
        commands (snd (onClickSide h s)) =
          commands s @
            [''FreeCAD.DraftWorkingPlane.alignToPointAndAxis('' @ tostr h c
               @ '', FreeCAD.Vector(1, 0, 0), '' @ str_float h off @ '')'',
             ''FreeCADGui.Snapper.setGrid()''] \<and>
        wplane (snd (onClickSide h s)) =
          (if hasSnapper s \<and> call s \<noteq> None
           then wp_restore h (alignToPointAndAxis h c (Vector 1 0 0) off (wplane s))
           else alignToPointAndAxis h c (Vector 1 0 0) off (wplane s))" for c
    using onClickCanonical_result [OF off, of 1 0 0 c "''Side''"]
    by (auto simp: onClickSide_def ac_def tostr_tuple_def)
  have zero: "\<not> checkCenter (taskd s) \<Longrightarrow> getCenterPoint h a b c s = Inr Vector0" for a b c
    by (simp add: getCenterPoint_def)
  have spec: "axis (wplane (snd (onClickTop h s))) = Vector 0 0 1 \<and>
        position (wplane (snd (onClickTop h s))) = Vector0"
    if "\<not> checkCenter (taskd s)" "off = 0" "alignToPointAndAxis h = spec_alignToPointAndAxis"
      "wp_restore h (spec_alignToPointAndAxis Vector0 (Vector 0 0 1) 0 (wplane s))
        = spec_alignToPointAndAxis Vector0 (Vector 0 0 1) 0 (wplane s)"
  proof -
    have "wplane (snd (onClickTop h s))
            = spec_alignToPointAndAxis Vector0 (Vector 0 0 1) 0 (wplane s)"
      using top [OF zero [OF that(1)]] that(2,3,4) by simp
    then show ?thesis
      by (simp add: spec_alignToPointAndAxis_def add_def Vector0_def)
  qed
  show ?thesis
    using top front side zero spec by blast
qed

theorem canonical_buttons_align_witness:
  "commands (snd (onClickTop demo_host
                    (demo_state\<lparr>taskd := (taskd demo_state)\<lparr>fieldOffset := ''5''\<rparr>\<rparr>))) =
     [''FreeCAD.DraftWorkingPlane.alignToPointAndAxis(FreeCAD.Vector(0.0, 0.0, 0.0), FreeCAD.Vector(0, 0, 1), 5.0)'',
      ''FreeCADGui.Snapper.setGrid()''] \<and>
   position (wplane (snd (onClickTop demo_host
                    (demo_state\<lparr>taskd := (taskd demo_state)\<lparr>fieldOffset := ''5''\<rparr>\<rparr>))))
     = Vector 0 0 5 \<and>
   commands (snd (onClickTop (demo_host\<lparr>getAngle := (\<lambda>a b. 1)\<rparr>)
                    (demo_state\<lparr>taskd := (taskd demo_state)\<lparr>fieldOffset := ''5'',
                                                            checkCenter := True\<rparr>,
                                 camera := (camera demo_state)\<lparr>cam_position := Vector 0 0 2\<rparr>\<rparr>))) =
     [''FreeCAD.DraftWorkingPlane.alignToPointAndAxis(FreeCAD.Vector(0.0, 0.0, 1.0), FreeCAD.Vector(0, 0, 1), 5.0)'',
      ''FreeCADGui.Snapper.setGrid()''] \<and>
   commands (snd (onClickFront (demo_host\<lparr>Quantity := (\<lambda>t. if t = ''5 mm'' then Some 5 else None)\<rparr>)
                    (demo_state\<lparr>taskd := (taskd demo_state)\<lparr>fieldOffset := ''5 mm''\<rparr>\<rparr>))) =
     [''FreeCAD.DraftWorkingPlane.alignToPointAndAxis(FreeCAD.Vector(0.0, 0.0, 0.0), FreeCAD.Vector(0, -1, 0), 5.0)'',
      ''FreeCADGui.Snapper.setGrid()''] \<and>
   axis (wplane (snd (onClickSide demo_host demo_state))) = Vector 1 0 0 \<and>
   axis (wplane (snd (onClickTop demo_host demo_state))) = Vector 0 0 1 \<and>
   position (wplane (snd (onClickTop demo_host demo_state))) = Vector0"
proof -
  let ?s5 = "demo_state\<lparr>taskd := (taskd demo_state)\<lparr>fieldOffset := ''5''\<rparr>\<rparr>"
  let ?hB = "demo_host\<lparr>getAngle := (\<lambda>a b. 1)\<rparr>"
  let ?sB = "demo_state\<lparr>taskd := (taskd demo_state)\<lparr>fieldOffset := ''5'', checkCenter := True\<rparr>,
                        camera := (camera demo_state)\<lparr>cam_position := Vector 0 0 2\<rparr>\<rparr>"
  let ?hQ = "demo_host\<lparr>Quantity := (\<lambda>t. if t = ''5 mm'' then Some 5 else None)\<rparr>"
  let ?sQ = "demo_state\<lparr>taskd := (taskd demo_state)\<lparr>fieldOffset := ''5 mm''\<rparr>\<rparr>"
  have a5: "float demo_host (fieldOffset (taskd ?s5)) = Some 5 \<or>
        (float demo_host (fieldOffset (taskd ?s5)) = None \<and>
         Quantity demo_host (fieldOffset (taskd ?s5)) = Some 5)"
    by (simp add: demo_host_def demo_state_def demo_float_def)
  have aB: "float ?hB (fieldOffset (taskd ?sB)) = Some 5 \<or>
        (float ?hB (fieldOffset (taskd ?sB)) = None \<and>
         Quantity ?hB (fieldOffset (taskd ?sB)) = Some 5)"
    by (simp add: demo_host_def demo_state_def demo_float_def)
  have aQ: "float ?hQ (fieldOffset (taskd ?sQ)) = Some 5 \<or>
        (float ?hQ (fieldOffset (taskd ?sQ)) = None \<and>
         Quantity ?hQ (fieldOffset (taskd ?sQ)) = Some 5)"
    by (simp add: demo_host_def demo_state_def demo_float_def)
  have a0: "float demo_host (fieldOffset (taskd demo_state)) = Some 0 \<or>
        (float demo_host (fieldOffset (taskd demo_state)) = None \<and>
         Quantity demo_host (fieldOffset (taskd demo_state)) = Some 0)"
    by (simp add: demo_host_def demo_state_def demo_float_def)
  have c5: "getCenterPoint demo_host 0 0 1 ?s5 = Inr Vector0"
    by (simp add: getCenterPoint_def demo_state_def)
  have cB: "getCenterPoint ?hB 0 0 1 ?sB = Inr (Vector 0 0 1)"
    by (simp add: getCenterPoint_def demo_state_def demo_host_def Let_def add_def)
  have cQ: "getCenterPoint ?hQ 0 (- 1) 0 ?sQ = Inr Vector0"
    by (simp add: getCenterPoint_def demo_state_def)
  have c0: "getCenterPoint demo_host 0 0 1 demo_state = Inr Vector0"
      "getCenterPoint demo_host 1 0 0 demo_state = Inr Vector0"
    by (simp_all add: getCenterPoint_def demo_state_def)
  have r1: "commands (snd (onClickTop demo_host ?s5)) =
     [''FreeCAD.DraftWorkingPlane.alignToPointAndAxis(FreeCAD.Vector(0.0, 0.0, 0.0), FreeCAD.Vector(0, 0, 1), 5.0)'',
      ''FreeCADGui.Snapper.setGrid()'']"
      "position (wplane (snd (onClickTop demo_host ?s5))) = Vector 0 0 5"
    using canonical_buttons_align [OF a5, where cp = Vector0] c5
    by (simp_all add: demo_host_def demo_state_def tostr_def demo_str_def Vector0_def
        spec_alignToPointAndAxis_def add_def)
  have r2: "commands (snd (onClickTop ?hB ?sB)) =
     [''FreeCAD.DraftWorkingPlane.alignToPointAndAxis(FreeCAD.Vector(0.0, 0.0, 1.0), FreeCAD.Vector(0, 0, 1), 5.0)'',
      ''FreeCADGui.Snapper.setGrid()'']"
    using canonical_buttons_align [OF aB, where cp = "Vector 0 0 1"] cB
    by (simp add: demo_host_def demo_state_def tostr_def demo_str_def)
  have r3: "commands (snd (onClickFront ?hQ ?sQ)) =
     [''FreeCAD.DraftWorkingPlane.alignToPointAndAxis(FreeCAD.Vector(0.0, 0.0, 0.0), FreeCAD.Vector(0, -1, 0), 5.0)'',
      ''FreeCADGui.Snapper.setGrid()'']"
    using canonical_buttons_align [OF aQ, where cp = Vector0] cQ
    by (simp add: demo_host_def demo_state_def tostr_def demo_str_def Vector0_def)
  have r4: "axis (wplane (snd (onClickSide demo_host demo_state))) = Vector 1 0 0"
      "axis (wplane (snd (onClickTop demo_host demo_state))) = Vector 0 0 1"
      "position (wplane (snd (onClickTop demo_host demo_state))) = Vector0"
    using canonical_buttons_align [OF a0, where cp = Vector0] c0
    by (simp_all add: demo_host_def demo_state_def Vector0_def
        spec_alignToPointAndAxis_def add_def)
  show ?thesis
    using r1 r2 r3 r4 by simp
qed

subsection \<open>The centre point\<close>

text \<open>
  C7. With centering enabled, when the angle between the camera position projected on the
  direction and the view direction is below 0.0001, \<open>getCenterPoint\<close> returns the null
  vector, as a value and not as an exception. The camera is not moved: \<open>getCenterPoint\<close>
  only reads it, and the buttons that call it leave the camera as it was.
\<close>

theorem getCenterPoint_degenerate:
  assumes "checkCenter (taskd s)"
    and "getAngle h (project h (cam_position (camera s)) (Vector x y z))
           (getViewDirection h (camera s)) < 0.0001"
  shows "getCenterPoint h x y z s = Inr Vector0 \<and>
         camera (snd (onClickTop h s)) = camera s \<and>
         camera (snd (onClickFront h s)) = camera s \<and>
         camera (snd (onClickSide h s)) = camera s"
proof -
  have "getCenterPoint h x y z s = Inr Vector0"
    using assms by (simp add: getCenterPoint_def Let_def)
  moreover have "camera (snd (onClickCanonical h t l s)) = camera s" for t l
    by (cases t) (simp add: onClickCanonical_def Let_def split: sum.splits prod.splits)
  ultimately show ?thesis
    by (simp add: onClickTop_def onClickFront_def onClickSide_def)
qed

theorem getCenterPoint_degenerate_witness:
  "getCenterPoint demo_host 0 0 1 (demo_state\<lparr>taskd := (taskd demo_state)\<lparr>checkCenter := True\<rparr>\<rparr>)
     = Inr Vector0 \<and>
   camera (snd (onClickTop demo_host
                  (demo_state\<lparr>taskd := (taskd demo_state)\<lparr>checkCenter := True\<rparr>\<rparr>)))
     = camera demo_state"
  using getCenterPoint_degenerate
    [of "demo_state\<lparr>taskd := (taskd demo_state)\<lparr>checkCenter := True\<rparr>\<rparr>" demo_host 0 0 1]
  by (simp add: demo_host_def)

subsection \<open>The status text\<close>




subsection \<open>The mouse button in the view\<close>

text \<open>
  C9. For every event of the first mouse button going down, \<open>action\<close> reads nothing of
  the selection and runs no selection check itself: it returns normally, and the state
  after it is the state before it with one \<open>checkSelection\<close> task added to the queue of
  \<open>todo.delay\<close>. When the queue was empty, the check runs when the host gets to the
  delayed task, on the selection as it is by then.
\<close>

theorem action_button1_down_defers:
  assumes "arg ''Type'' = Some ''SoMouseButtonEvent''"
    and "arg ''State'' = Some ''DOWN''"
    and "arg ''Button'' = Some ''BUTTON1''"
  shows "action h arg s = (Inr (), s\<lparr>todo := todo s @ [CheckSelection]\<rparr>) \<and>
         (todo s = [] \<longrightarrow>
            run h [SoEvent arg, Select sel, RunDelayed] s
              = snd (checkSelection h (s\<lparr>selection := sel\<rparr>)))"
proof -
  have a: "action h arg s = (Inr (), s\<lparr>todo := todo s @ [CheckSelection]\<rparr>)"
    using assms by (simp add: action_def action_mouse_def todo_delay_def)
  have "run h [SoEvent arg, Select sel, RunDelayed] s
          = snd (checkSelection h (s\<lparr>selection := sel\<rparr>))" if "todo s = []"
  proof -
    have eq: "s\<lparr>selection := sel, todo := []\<rparr> = s\<lparr>selection := sel\<rparr>"
      using that by (cases s) simp
    have "run h [SoEvent arg, Select sel, RunDelayed] s
            = snd (checkSelection h (s\<lparr>selection := sel, todo := []\<rparr>))"
      using that by (simp add: step_def a)
    then show ?thesis
      by (simp only: eq)
  qed
  with a show ?thesis by simp
qed

theorem action_button1_down_defers_witness:
  "action demo_host button1_down demo_state
     = (Inr (), demo_state\<lparr>todo := [CheckSelection]\<rparr>) \<and>
   run demo_host [SoEvent button1_down, Select face_pick, RunDelayed] demo_state
     = snd (checkSelection demo_host (demo_state\<lparr>selection := face_pick\<rparr>))"
proof -
  have t: "todo demo_state = []" by (simp add: demo_state_def)
  show ?thesis
    using action_button1_down_defers [of button1_down demo_host demo_state face_pick] t
    by (simp add: button1_down_def)
qed

subsection \<open>The grid's main-line setting\<close>

text \<open>
  C10. \<open>onSetMainline(i)\<close> with \<open>i\<close> at most 1 does nothing: the state, and with it the
  \<open>gridEvery\<close> parameter and the count of grid refreshes, is the one before the call. For
  \<open>i\<close> above 1 the parameter holds \<open>i\<close> afterwards and the grid is refreshed once (when
  the Gui has a Snapper). A call that changed the parameters or refreshed the grid had
  \<open>i\<close> above 1.
\<close>

theorem onSetMainline_small_is_noop:
  "(i \<le> 1 \<longrightarrow> onSetMainline i s = s) \<and>
   (1 < i \<longrightarrow>
      GetInt (param (onSetMainline i s)) ''gridEvery'' d = i \<and>
      gridRefreshes (onSetMainline i s)
        = (if hasSnapper s then Suc (gridRefreshes s) else gridRefreshes s)) \<and>
   (param (onSetMainline i s) \<noteq> param s \<or> gridRefreshes (onSetMainline i s) \<noteq> gridRefreshes s
      \<longrightarrow> 1 < i)"
  by (auto simp: onSetMainline_def Let_def GetInt_def SetInt_def)

theorem onSetMainline_small_is_noop_witness:
  "onSetMainline 1 demo_state = demo_state \<and>
   onSetMainline (- 3) demo_state = demo_state \<and>
   GetInt (param (onSetMainline 5 demo_state)) ''gridEvery'' 10 = 5 \<and>
   gridRefreshes (onSetMainline 5 demo_state) = 1"
  using onSetMainline_small_is_noop [of 1 demo_state 10]
    onSetMainline_small_is_noop [of "- 3" demo_state 10]
    onSetMainline_small_is_noop [of 5 demo_state 10]
  by (simp add: demo_state_def)

end
